theory Spec2Isabelle
  imports Complex_Main "HOL-Library.Multiset"
begin

section \<open>Number model\<close>

text \<open>
  The program is Python 3 over numpy \<open>float64\<close> arrays.  Two readings of a float are
  used, each where the source needs it.

  \<^item> \<^emph>\<open>Exact arithmetic\<close>: a finite float is a \<^typ>\<open>real\<close>; \<open>+\<close>, \<open>*\<close>, \<open>/\<close>, \<open>exp\<close> are
    the real operations, so rounding, overflow and underflow are not part of the model.
    numpy's division by zero yields \<open>inf\<close> or \<open>nan\<close>, which \<^typ>\<open>real\<close> does not have;
    the theorems over this reading therefore assume that the divisors they meet are
    non-zero.
  \<^item> \<^emph>\<open>Extended values\<close> (section on scattering lifetimes): the routines whose source
    tests \<open>np.isinf\<close> and \<open>np.isnan\<close> are modelled over finite reals together with
    \<open>+inf\<close>, \<open>-inf\<close> and \<open>nan\<close>, with the IEEE 754 rules for these three values.

  A two-dimensional array is a list of rows.  The methods receive an array of shape
  \<open>(1, N)\<close> along the energy axis, or of shape \<open>(1, nT)\<close> along the temperature axis, as
  its single row (a list); a \<open>(nT, N)\<close> array has one row per temperature index.
\<close>

text \<open>
  Exceptions are values.  \<open>ShapeMismatch\<close> marks arrays that are not co-indexed (axes
  that should agree have different lengths).  What numpy does then (broadcasting an axis
  of length one, ignoring surplus rows, raising \<open>ValueError\<close> or \<open>IndexError\<close>) is
  outside the model, which covers co-indexed arrays and stops there.
\<close>

datatype error = ValueError | ZeroDivisionError | TypeError | NameError string | ShapeMismatch

subsection \<open>Class constants and instance attributes\<close>

definition hBar :: real where "hBar = 6582119 / 10 ^ 22"
definition kB :: real where "kB = 8617330350 / 10 ^ 14"
definition e2C :: real where "e2C = 16021765 / 10 ^ 26"
definition e0 :: real where "e0 = 8854187817 / 10 ^ 21"
definition Ang2meter :: real where "Ang2meter = 1 / 10 ^ 10"
definition me :: real where "me = 9109 / 10 ^ 34"

text \<open>
  The attributes set by \<open>__init__\<close>; \<open>numBands\<close> and \<open>numQpoints\<close> default to \<open>None\<close>,
  \<open>energyMin\<close>, \<open>energyMax\<close> and \<open>numEnergySampling\<close> to 0, 2 and 1000.  (The band
  structure array \<open>electronDispersian\<close> is read by none of the methods below and is
  left out.)
\<close>

record thermoelectricProperties =
  latticeParameter :: real
  dopantElectricCharge :: real
  electronEffectiveMass :: real
  dielectric :: real
  numKpoints :: int
  numBands :: "int option"
  numQpoints :: "int option"
  energyMin :: real
  energyMax :: real
  numEnergySampling :: int

section \<open>Energy grid\<close>

text \<open>
  \<open>np.linspace(start, stop, num)\<close> with \<open>endpoint=True\<close>, following numpy: a negative
  \<open>num\<close> raises \<open>ValueError\<close>; the samples are \<open>i * step + start\<close> with
  \<open>step = (stop - start) / (num - 1)\<close> (or \<open>i / (num - 1) * (stop - start) + start\<close> when
  the step is zero, and \<open>i * (stop - start) + start\<close> when \<open>num - 1\<close> is zero), and the last
  sample is overwritten with \<open>stop\<close> when \<open>num > 1\<close>.
\<close>

definition linspace :: "real \<Rightarrow> real \<Rightarrow> int \<Rightarrow> error + real list" where
  "linspace start stop num =
     (if num < 0 then Inl ValueError
      else
        let n = nat num;
            dv = n - 1;
            delta = stop - start;
            y0 = map real [0..<n];
            y1 = (if 0 < dv then
                    (let step = delta / real dv
                     in if step = 0 then map (\<lambda>v. v / real dv * delta) y0
                        else map (\<lambda>v. v * step) y0)
                  else map (\<lambda>v. v * delta) y0);
            y2 = map (\<lambda>v. v + start) y1
        in Inr (if 1 < n then y2[n - 1 := stop] else y2))"

text \<open>
  \<open>energyRange\<close>: \<open>np.linspace(self.energyMin, self.energyMax, self.numEnergySampling)\<close>,
  then \<open>np.expand_dims(..., axis=0)\<close>, which wraps the samples as the single row of a
  \<open>(1, N)\<close> array.  The method has no check of its own.
\<close>

definition energyRange :: "thermoelectricProperties \<Rightarrow> error + real list list" where
  "energyRange self =
     (case linspace (energyMin self) (energyMax self) (numEnergySampling self) of
        Inl e \<Rightarrow> Inl e
      | Inr g \<Rightarrow> Inr [g])"

section \<open>Carrier statistics\<close>

text \<open>
  \<open>np.arange(start, stop, step)\<close> over floats: \<open>ceil((stop - start) / step)\<close> samples
  \<open>start + i * step\<close>, none when that count is not positive; the division by a zero
  step raises.
\<close>

definition arange :: "real \<Rightarrow> real \<Rightarrow> real \<Rightarrow> error + real list" where
  "arange start stop step =
     (if step = 0 then Inl ZeroDivisionError
      else Inr (map (\<lambda>i. start + real i * step) [0..<nat \<lceil>(stop - start) / step\<rceil>]))"

text \<open>\<open>temp(TempMin=300, TempMax=1301, dT=100)\<close>, the default temperature sweep.\<close>

definition temp :: "real \<Rightarrow> real \<Rightarrow> real \<Rightarrow> error + real list" where
  "temp TempMin TempMax dT = arange TempMin TempMax dT"

text \<open>
  \<open>fermiDistribution(energyRange, fermiLevel, Temp)\<close>.  \<open>fermiLevel.T\<close> and \<open>T.T\<close> are
  columns over the temperature axis, \<open>energyRange\<close> is a row over the energy axis, so
  \<open>xi\<close>, \<open>fermiDirac\<close> and \<open>dfdE\<close> have one row per temperature index and one column
  per grid energy.  The result is the pair \<open>[fermiDirac, dfdE]\<close>.  (The parameter
  \<open>energyRange\<close> is written \<open>eRange\<close> throughout, the method of that name being
  a constant of this theory.)
\<close>

definition fermiDistribution ::
  "real list \<Rightarrow> real list \<Rightarrow> real list option \<Rightarrow> error + (real list list \<times> real list list)" where
  "fermiDistribution eRange fermiLevel Temp =
     (case (case Temp of None \<Rightarrow> temp 300 1301 100 | Some T \<Rightarrow> Inr T) of
        Inl e \<Rightarrow> Inl e
      | Inr T \<Rightarrow>
          if length fermiLevel \<noteq> length T then Inl ShapeMismatch
          else
            let xi = map (\<lambda>(Ef, t). map (\<lambda>E. exp ((E - Ef) / t / kB)) eRange)
                       (zip fermiLevel T);
                fermiDirac = map (map (\<lambda>x. 1 / (x + 1))) xi;
                dfdE = map2 (\<lambda>t row. map (\<lambda>x. - 1 * x / (1 + x) ^ 2 / t / kB) row) T xi
            in Inr (fermiDirac, dfdE))"

text \<open>
  \<open>np.trapz(y, x, axis=1)\<close> on one row: \<open>d = diff(x)\<close>, then
  \<open>(d * (y[1:] + y[:-1]) / 2.0).sum()\<close>.
\<close>

definition np_diff :: "real list \<Rightarrow> real list" where
  "np_diff x = map2 (\<lambda>a b. a - b) (tl x) (butlast x)"

definition trapz :: "real list \<Rightarrow> real list \<Rightarrow> real" where
  "trapz y x = sum_list (map2 (\<lambda>d s. d * s / 2) (np_diff x) (map2 (+) (tl y) (butlast y)))"

text \<open>
  \<open>np.argmin\<close> on one row: a left-to-right scan that keeps the first position of the
  smallest value seen (a later value replaces it only when strictly smaller); an empty
  row raises \<open>ValueError\<close>.
\<close>

fun argmin_scan :: "real \<Rightarrow> nat \<Rightarrow> nat \<Rightarrow> real list \<Rightarrow> nat" where
  "argmin_scan mp best i [] = best"
| "argmin_scan mp best i (x # xs) =
     (if x < mp then argmin_scan x i (Suc i) xs else argmin_scan mp best (Suc i) xs)"

definition argmin :: "real list \<Rightarrow> error + nat" where
  "argmin xs = (case xs of [] \<Rightarrow> Inl ValueError | x # rest \<Rightarrow> Inr (argmin_scan x 0 1 rest))"

text \<open>
  The body of the inner loop of \<open>fermiLevelSelfConsistent\<close>: the occupation for one
  candidate \<open>i\<close> and one temperature \<open>j\<close> (both passed as \<open>1 \<times> 1\<close> arrays), then
  \<open>np.trapz(np.multiply(DoS, f), energyRange, axis=1)\<close>.
\<close>

definition carrier_integral :: "real list \<Rightarrow> real list \<Rightarrow> real \<Rightarrow> real \<Rightarrow> error + real" where
  "carrier_integral eRange DoS i j =
     (case fermiDistribution eRange [i] (Some [j]) of
        Inl e \<Rightarrow> Inl e
      | Inr (f, _) \<Rightarrow> Inr (trapz (map2 (*) DoS (hd f)) eRange))"

text \<open>Exceptions raised while a list is filled end the fill (first one wins).\<close>

fun collect :: "(error + 'a) list \<Rightarrow> error + 'a list" where
  "collect [] = Inr []"
| "collect (Inl e # _) = Inl e"
| "collect (Inr v # rest) = (case collect rest of Inl e \<Rightarrow> Inl e | Inr vs \<Rightarrow> Inr (v # vs))"

text \<open>
  \<open>fermiLevelSelfConsistent(carrierConcentration, Temp, energyRange, DoS, fermilevel)\<close>.
  \<open>fermi\<close> has one row of 4000 candidates per temperature index; \<open>result_array\<close> holds
  the integral for every (temperature, candidate); \<open>diff\<close> is the target minus the
  absolute value of the integral; \<open>min_idx\<close> is the row-wise \<open>argmin\<close> of \<open>|diff|\<close>; the
  result is \<open>[Ef, n]\<close> with \<open>Ef = fermi[t, min_idx[t]]\<close> and
  \<open>n = result_array[t, min_idx[t]]\<close>.
\<close>

definition fermiLevelSelfConsistent ::
  "real list \<Rightarrow> real list \<Rightarrow> real list \<Rightarrow> real list \<Rightarrow> real list
     \<Rightarrow> error + (real list \<times> real list)" where
  "fermiLevelSelfConsistent carrierConcentration Temp eRange DoS fermilevel =
     (if length carrierConcentration \<noteq> length Temp \<or> length fermilevel \<noteq> length Temp
         \<or> length DoS \<noteq> length eRange
      then Inl ShapeMismatch
      else
        case collect (map (\<lambda>a. linspace (a - 2 / 10) (a + 2 / 10) 4000) fermilevel) of
          Inl e \<Rightarrow> Inl e
        | Inr fermi \<Rightarrow>
           (case collect (map2 (\<lambda>j row. collect (map (\<lambda>i. carrier_integral eRange DoS i j) row))
                            Temp fermi) of
              Inl e \<Rightarrow> Inl e
            | Inr result_array \<Rightarrow>
               (let diff = map2 (\<lambda>c row. map (\<lambda>r. c - \<bar>r\<bar>) row) carrierConcentration result_array
                in case collect (map (\<lambda>row. argmin (map abs row)) diff) of
                     Inl e \<Rightarrow> Inl e
                   | Inr min_idx \<Rightarrow>
                       Inr (map2 (\<lambda>row k. row ! k) fermi min_idx,
                            map2 (\<lambda>row k. row ! k) result_array min_idx))))"

section \<open>Transport coefficients\<close>

record coefficients =
  c_Sigma :: "real list"
  c_S :: "real list"
  c_PF :: "real list"
  c_ke :: "real list"
  c_delta_1 :: "real list"
  c_delta_2 :: "real list"
  c_Lorenz :: "real list"

text \<open>
  \<open>electricalProperties(E, DoS, vg, Ef, dfdE, Temp, tau)\<close>.  \<open>E\<close>, \<open>DoS\<close>, \<open>vg\<close> are rows
  over the energy axis; \<open>Ef\<close> and \<open>Temp\<close> run over the temperature axis; \<open>dfdE\<close> and
  \<open>tau\<close> have one row per temperature index.  Every \<open>np.trapz(..., E, axis=1)\<close> yields one
  value per temperature index, and the divisions by \<open>Temp\<close> pair value and temperature
  of the same index.  \<open>delta_0\<close> is computed and not used.  The returned list is
  \<open>[Sigma, S[0], PF[0], ke[0], delta_1, delta_2, Lorenz[0]]\<close>.
\<close>

definition electricalProperties ::
  "real list \<Rightarrow> real list \<Rightarrow> real list \<Rightarrow> real list \<Rightarrow> real list list \<Rightarrow> real list
     \<Rightarrow> real list list \<Rightarrow> error + coefficients" where
  "electricalProperties E DoS vg Ef dfdE Temp tau =
     (if length DoS \<noteq> length E \<or> length vg \<noteq> length E
         \<or> (\<exists>row \<in> set dfdE. length row \<noteq> length E)
         \<or> (\<exists>row \<in> set tau. length row \<noteq> length E)
         \<or> length Ef \<noteq> length Temp \<or> length dfdE \<noteq> length Temp \<or> length tau \<noteq> length Temp
      then Inl ShapeMismatch
      else
        let X = map (\<lambda>row. map2 (*) (map2 (\<lambda>d v. d * v ^ 2) DoS vg) row) dfdE;
            Y = map2 (\<lambda>ef row. map2 (\<lambda>e x. (e - ef) * x) E row) Ef X;
            Z = map2 (\<lambda>ef row. map2 (\<lambda>e y. (e - ef) * y) E row) Ef Y;
            IX = map2 (\<lambda>x t. trapz (map2 (*) x t) E) X tau;
            IY = map2 (\<lambda>y t. trapz (map2 (*) y t) E) Y tau;
            IZ = map2 (\<lambda>z t. trapz (map2 (*) z t) E) Z tau;
            Sigma = map (\<lambda>ix. - 1 * ix / 3 * e2C) IX;
            S = map2 (\<lambda>q T. q / T) (map2 (\<lambda>iy ix. - 1 * iy / ix) IY IX) Temp;
            PF = map2 (\<lambda>sg s. sg * s ^ 2) Sigma S;
            ke = map2 (\<lambda>q T. q / T / 3 * e2C)
                   (map2 (\<lambda>iz (iy, ix). - 1 * (iz - iy ^ 2 / ix)) IZ (zip IY IX)) Temp;
            delta_0 = map2 (\<lambda>x t. trapz (map2 (*) (map2 (*) x t) E) E) X tau;
            delta_1 = map2 (\<lambda>i1 ix. i1 / ix)
                        (map2 (\<lambda>x t. trapz (map2 (*) (map2 (*) x t) E) E) X tau) IX;
            delta_2 = map2 (\<lambda>i2 ix. i2 / ix)
                        (map2 (\<lambda>x t. trapz (map2 (*) (map2 (*) x t) (map (\<lambda>e. e ^ 2) E)) E) X tau) IX;
            Lorenz = map2 (\<lambda>q T. q / T / T) (map2 (\<lambda>d2 d1. d2 - d1 ^ 2) delta_2 delta_1) Temp
        in Inr \<lparr>c_Sigma = Sigma, c_S = S, c_PF = PF, c_ke = ke,
                c_delta_1 = delta_1, c_delta_2 = delta_2, c_Lorenz = Lorenz\<rparr>)"

subsection \<open>The formulas of the specification\<close>

text \<open>
  The specification's side of the comparison, at one temperature index: the
  trapezoidal rule over the grid as a sum over grid intervals, the integrands
  \<open>X\<close>, \<open>Y\<close>, \<open>Z\<close> as functions of the grid index, and the seven coefficients.
\<close>

definition spec_trapezoid :: "(nat \<Rightarrow> real) \<Rightarrow> real list \<Rightarrow> real" where
  "spec_trapezoid f E =
     sum_list (map (\<lambda>i. (E ! Suc i - E ! i) * (f i + f (Suc i)) / 2) [0..<length E - 1])"

definition spec_X :: "real list \<Rightarrow> real list \<Rightarrow> real list \<Rightarrow> nat \<Rightarrow> real" where
  "spec_X DoS vg dfdE i = DoS ! i * (vg ! i)\<^sup>2 * dfdE ! i"

definition spec_Y :: "real list \<Rightarrow> real \<Rightarrow> real list \<Rightarrow> real list \<Rightarrow> real list \<Rightarrow> nat \<Rightarrow> real" where
  "spec_Y E Ef DoS vg dfdE i = (E ! i - Ef) * spec_X DoS vg dfdE i"

definition spec_Z :: "real list \<Rightarrow> real \<Rightarrow> real list \<Rightarrow> real list \<Rightarrow> real list \<Rightarrow> nat \<Rightarrow> real" where
  "spec_Z E Ef DoS vg dfdE i = (E ! i - Ef) * spec_Y E Ef DoS vg dfdE i"

definition spec_int_X :: "real list \<Rightarrow> real list \<Rightarrow> real list \<Rightarrow> real list \<Rightarrow> real list \<Rightarrow> real" where
  "spec_int_X E DoS vg dfdE tau = spec_trapezoid (\<lambda>i. spec_X DoS vg dfdE i * tau ! i) E"

definition spec_int_Y ::
  "real list \<Rightarrow> real \<Rightarrow> real list \<Rightarrow> real list \<Rightarrow> real list \<Rightarrow> real list \<Rightarrow> real" where
  "spec_int_Y E Ef DoS vg dfdE tau = spec_trapezoid (\<lambda>i. spec_Y E Ef DoS vg dfdE i * tau ! i) E"

definition spec_int_Z ::
  "real list \<Rightarrow> real \<Rightarrow> real list \<Rightarrow> real list \<Rightarrow> real list \<Rightarrow> real list \<Rightarrow> real" where
  "spec_int_Z E Ef DoS vg dfdE tau = spec_trapezoid (\<lambda>i. spec_Z E Ef DoS vg dfdE i * tau ! i) E"

definition spec_Sigma :: "real list \<Rightarrow> real list \<Rightarrow> real list \<Rightarrow> real list \<Rightarrow> real list \<Rightarrow> real" where
  "spec_Sigma E DoS vg dfdE tau = - (1 / 3) * e2C * spec_int_X E DoS vg dfdE tau"

definition spec_S ::
  "real list \<Rightarrow> real \<Rightarrow> real list \<Rightarrow> real list \<Rightarrow> real list \<Rightarrow> real list \<Rightarrow> real \<Rightarrow> real" where
  "spec_S E Ef DoS vg dfdE tau T =
     - spec_int_Y E Ef DoS vg dfdE tau / spec_int_X E DoS vg dfdE tau / T"

definition spec_PF ::
  "real list \<Rightarrow> real \<Rightarrow> real list \<Rightarrow> real list \<Rightarrow> real list \<Rightarrow> real list \<Rightarrow> real \<Rightarrow> real" where
  "spec_PF E Ef DoS vg dfdE tau T =
     spec_Sigma E DoS vg dfdE tau * (spec_S E Ef DoS vg dfdE tau T)\<^sup>2"

definition spec_ke ::
  "real list \<Rightarrow> real \<Rightarrow> real list \<Rightarrow> real list \<Rightarrow> real list \<Rightarrow> real list \<Rightarrow> real \<Rightarrow> real" where
  "spec_ke E Ef DoS vg dfdE tau T =
     - (1 / (3 * T)) * e2C *
       (spec_int_Z E Ef DoS vg dfdE tau
          - (spec_int_Y E Ef DoS vg dfdE tau)\<^sup>2 / spec_int_X E DoS vg dfdE tau)"

definition spec_delta1 :: "real list \<Rightarrow> real list \<Rightarrow> real list \<Rightarrow> real list \<Rightarrow> real list \<Rightarrow> real" where
  "spec_delta1 E DoS vg dfdE tau =
     spec_trapezoid (\<lambda>i. spec_X DoS vg dfdE i * tau ! i * E ! i) E / spec_int_X E DoS vg dfdE tau"

definition spec_delta2 :: "real list \<Rightarrow> real list \<Rightarrow> real list \<Rightarrow> real list \<Rightarrow> real list \<Rightarrow> real" where
  "spec_delta2 E DoS vg dfdE tau =
     spec_trapezoid (\<lambda>i. spec_X DoS vg dfdE i * tau ! i * (E ! i)\<^sup>2) E
       / spec_int_X E DoS vg dfdE tau"

definition spec_Lorenz ::
  "real list \<Rightarrow> real list \<Rightarrow> real list \<Rightarrow> real list \<Rightarrow> real list \<Rightarrow> real \<Rightarrow> real" where
  "spec_Lorenz E DoS vg dfdE tau T =
     (spec_delta2 E DoS vg dfdE tau - (spec_delta1 E DoS vg dfdE tau)\<^sup>2) / T\<^sup>2"

section \<open>Scattering lifetimes\<close>

subsection \<open>Acoustic phonons\<close>

text \<open>
  \<open>tau_p(energyRange, alpha, Dv, DA, T, vs, D, rho)\<close>.  \<open>alpha\<close> and \<open>T\<close> run over the
  temperature axis, \<open>energyRange\<close> and \<open>D\<close> over the energy axis; \<open>Dv\<close>, \<open>DA\<close>, \<open>vs\<close>,
  \<open>rho\<close> are Python floats, so \<open>Dv/DA\<close> with a zero \<open>DA\<close> raises \<open>ZeroDivisionError\<close>.
  The result is \<open>[tau, tau_p]\<close>.
\<close>

definition tau_p ::
  "real list \<Rightarrow> real list \<Rightarrow> real \<Rightarrow> real \<Rightarrow> real list \<Rightarrow> real \<Rightarrow> real list \<Rightarrow> real
     \<Rightarrow> error + (real list list \<times> real list list)" where
  "tau_p eRange alpha Dv DA T vs D rho =
     (if DA = 0 then Inl ZeroDivisionError
      else if length alpha \<noteq> length T \<or> length D \<noteq> length eRange then Inl ShapeMismatch
      else
        let nonparabolic_term =
              map (\<lambda>a. map (\<lambda>E. (1 - ((a * E) / (1 + 2 * a * E) * (1 - Dv / DA))) ^ 2
                                 - 8 / 3 * (a * E) * (1 + a * E) / (1 + 2 * a * E) ^ 2 * (Dv / DA))
                             eRange) alpha;
            tau = map (\<lambda>t. map (\<lambda>d. rho * vs ^ 2 * hBar / pi / kB / t / DA / DA * 10 ^ 9 / e2C / d) D) T;
            tau_p = map2 (map2 (\<lambda>x y. x / y)) tau nonparabolic_term
        in Inr (tau, tau_p))"

text \<open>The correction factor as the specification writes it, at one energy.\<close>

definition spec_correction :: "real \<Rightarrow> real \<Rightarrow> real \<Rightarrow> real \<Rightarrow> real" where
  "spec_correction \<alpha> E Dv DA =
     (1 - (\<alpha> * E / (1 + 2 * \<alpha> * E)) * (1 - Dv / DA))\<^sup>2
       - (8 / 3) * (\<alpha> * E) * (1 + \<alpha> * E) / (1 + 2 * \<alpha> * E)\<^sup>2 * (Dv / DA)"

subsection \<open>Extended values\<close>

text \<open>
  A float that may be non-finite: a finite value (exact), \<open>+inf\<close>, \<open>-inf\<close> or \<open>nan\<close>.
  The operations follow IEEE 754 on the three special values and are exact on finite
  ones; zero carries no sign and counts as \<open>+0\<close> where IEEE looks at the sign of a zero
  (\<open>x / 0\<close> has the sign of \<open>x\<close>).
\<close>

datatype npfloat = Fin real | PInf | NInf | NaN

fun isnan :: "npfloat \<Rightarrow> bool" where
  "isnan NaN = True"
| "isnan _ = False"



definition inf_of_sign :: "real \<Rightarrow> npfloat" where
  "inf_of_sign s = (if 0 < s then PInf else if s < 0 then NInf else NaN)"

fun sign_of :: "npfloat \<Rightarrow> real" where
  "sign_of (Fin a) = sgn a"
| "sign_of PInf = 1"
| "sign_of NInf = - 1"
| "sign_of NaN = 0"

fun fneg :: "npfloat \<Rightarrow> npfloat" where
  "fneg (Fin a) = Fin (- a)"
| "fneg PInf = NInf"
| "fneg NInf = PInf"
| "fneg NaN = NaN"

fun fadd :: "npfloat \<Rightarrow> npfloat \<Rightarrow> npfloat" where
  "fadd NaN _ = NaN"
| "fadd _ NaN = NaN"
| "fadd (Fin a) (Fin b) = Fin (a + b)"
| "fadd PInf NInf = NaN"
| "fadd NInf PInf = NaN"
| "fadd PInf _ = PInf"
| "fadd _ PInf = PInf"
| "fadd NInf _ = NInf"
| "fadd _ NInf = NInf"

definition fsub :: "npfloat \<Rightarrow> npfloat \<Rightarrow> npfloat" where
  "fsub x y = fadd x (fneg y)"

fun fmul :: "npfloat \<Rightarrow> npfloat \<Rightarrow> npfloat" where
  "fmul NaN _ = NaN"
| "fmul _ NaN = NaN"
| "fmul (Fin a) (Fin b) = Fin (a * b)"
| "fmul x y = inf_of_sign (sign_of x * sign_of y)"

fun fdiv :: "npfloat \<Rightarrow> npfloat \<Rightarrow> npfloat" where
  "fdiv NaN _ = NaN"
| "fdiv _ NaN = NaN"
| "fdiv (Fin a) (Fin b) = (if b = 0 then inf_of_sign (sgn a) else Fin (a / b))"
| "fdiv (Fin a) _ = Fin 0"
| "fdiv x (Fin b) = inf_of_sign (sign_of x * (if b < 0 then - 1 else 1))"
| "fdiv _ _ = NaN"

definition fsq :: "npfloat \<Rightarrow> npfloat" where
  "fsq x = fmul x x"

text \<open>\<open>x ** p\<close> for a positive, non-integer exponent \<open>p\<close>.\<close>

fun fpowr :: "npfloat \<Rightarrow> real \<Rightarrow> npfloat" where
  "fpowr (Fin a) p = (if a < 0 then NaN else Fin (a powr p))"
| "fpowr PInf p = PInf"
| "fpowr NInf p = PInf"
| "fpowr NaN p = NaN"

fun fsqrt :: "npfloat \<Rightarrow> npfloat" where
  "fsqrt (Fin a) = (if a < 0 then NaN else Fin (sqrt a))"
| "fsqrt PInf = PInf"
| "fsqrt NInf = NaN"
| "fsqrt NaN = NaN"

fun flog :: "npfloat \<Rightarrow> npfloat" where
  "flog (Fin a) = (if a < 0 then NaN else if a = 0 then NInf else Fin (ln a))"
| "flog PInf = PInf"
| "flog NInf = NaN"
| "flog NaN = NaN"

subsection \<open>Matthiessen's rule\<close>


subsection \<open>Ionized impurities\<close>

text \<open>
  The three routines take columns over the temperature axis (\<open>m_c\<close>, \<open>LD\<close>, \<open>N\<close>) and a
  row over the energy axis (\<open>energyRange\<close>, or the density of states \<open>D\<close>), and return
  one row per temperature index.  \<open>self.dielectric\<close> and the class constants are finite
  Python floats.
\<close>

text \<open>
  The last factor chain of the screened and of the unscreened routine, the same in both:
  \<open>16*np.pi*np.sqrt(2*m_c.T)*(4*np.pi*self.dielectric*e0)**2/N.T/var_tmp*energyRange**(3/2)/e2C**(5/2)\<close>,
  evaluated from left to right.
\<close>

definition coulomb_tau :: "thermoelectricProperties \<Rightarrow> npfloat \<Rightarrow> npfloat \<Rightarrow> npfloat \<Rightarrow> npfloat \<Rightarrow> npfloat" where
  "coulomb_tau self m n var_tmp E =
     fdiv (fmul (fdiv (fdiv (fmul (fmul (Fin (16 * pi)) (fsqrt (fmul (Fin 2) m)))
                                   (Fin ((4 * pi * dielectric self * e0) ^ 2)))
                             n)
                       var_tmp)
                (fpowr E (3 / 2)))
          (Fin (e2C powr (5 / 2)))"

definition tau_Screened_Coulomb ::
  "thermoelectricProperties \<Rightarrow> npfloat list \<Rightarrow> npfloat list \<Rightarrow> npfloat list \<Rightarrow> npfloat list
     \<Rightarrow> error + npfloat list list" where
  "tau_Screened_Coulomb self eRange m_c LD N =
     (if length LD \<noteq> length m_c \<or> length N \<noteq> length m_c then Inl ShapeMismatch
      else Inr (map (\<lambda>(m, ld, n).
             map (\<lambda>E.
               let g = fdiv (fdiv (fmul (fmul (fmul (Fin 8) m) (fsq ld)) E) (Fin (hBar ^ 2))) (Fin e2C);
                   var_tmp = fsub (flog (fadd (Fin 1) g)) (fdiv g (fadd (Fin 1) g));
                   tau = coulomb_tau self m n var_tmp E
               in if isnan tau then Fin 0 else tau) eRange)
             (zip m_c (zip LD N))))"

definition tau_Unscreened_Coulomb ::
  "thermoelectricProperties \<Rightarrow> npfloat list \<Rightarrow> npfloat list \<Rightarrow> npfloat list
     \<Rightarrow> error + npfloat list list" where
  "tau_Unscreened_Coulomb self eRange m_c N =
     (if length N \<noteq> length m_c then Inl ShapeMismatch
      else Inr (map (\<lambda>(m, n).
             map (\<lambda>E.
               let g = fdiv (fdiv (fmul (Fin (4 * pi * (4 * pi * dielectric self * e0))) E)
                                  (fpowr n (1 / 3)))
                            (Fin e2C);
                   var_tmp = flog (fadd (Fin 1) (fsq g));
                   tau = coulomb_tau self m n var_tmp E
               in if isnan tau then Fin 0 else tau) eRange)
             (zip m_c N)))"

definition tau_Strongly_Screened_Coulomb ::
  "thermoelectricProperties \<Rightarrow> npfloat list \<Rightarrow> npfloat list \<Rightarrow> npfloat list
     \<Rightarrow> error + npfloat list list" where
  "tau_Strongly_Screened_Coulomb self D LD N =
     (if length LD \<noteq> length N then Inl ShapeMismatch
      else Inr (map (\<lambda>(ld, n).
             map (\<lambda>d.
               fdiv (fmul (fdiv (fdiv (fdiv (fdiv (Fin hBar) n) (Fin pi)) d)
                                (fsq (fdiv (fsq ld) (Fin (4 * pi * dielectric self * e0)))))
                          (Fin 1))
                    (Fin (e2C ^ 2))) D)
             (zip LD N)))"

section \<open>Filtering sweep\<close>

text \<open>
  Names bound at module level (the imports and the class) and the local names of
  \<open>filteringEffect\<close> (its parameters and the names its body assigns).  A name the body
  reads that is in neither list, and is no Python builtin, raises \<open>NameError\<close> when the
  statement runs.
\<close>

definition module_names :: "string list" where
  "module_names =
     [''np'', ''norm'', ''expanduser'', ''InterpolatedUnivariateSpline'', ''PchipInterpolator'',
      ''jv'', ''mpl'', ''cm'', ''repmat'', ''plt'', ''Axes'', ''matplotlib'',
      ''FormatStrFormatter'', ''ScalarFormatter'', ''mplot3d'', ''LightSource'', ''sns'',
      ''accum'', ''thermoelectricProperties'']"

definition filteringEffect_locals :: "string list" where
  "filteringEffect_locals =
     [''self'', ''U0'', ''tau0'', ''tauOff'', ''energyRange'', ''electronBandStructure'', ''temp'',
      ''electronDoS'', ''electronGroupVelocity'', ''bandGap'', ''carrierConcentration'',
      ''fermiLevel'', ''fermiDistribution'', ''factor'', ''q'', ''uIncrement'', ''tauIncrement'',
      ''tempIndex'', ''n'', ''m'', ''sMatrix'', ''_'', ''__'', ''tauInc'', ''tau_on'',
      ''s'', ''r'', ''c'', ''pf'', ''X'', ''Y'']"

definition load_name :: "string \<Rightarrow> error + unit" where
  "load_name x =
     (if x \<in> set filteringEffect_locals \<or> x \<in> set module_names then Inr ()
      else Inl (NameError x))"

text \<open>
  The body of the inner loop.  Its first statement, \<open>tauInc = np.ones(len(Erange))\<close>,
  reads \<open>np\<close> and then \<open>Erange\<close>.  Past that statement the body calls
  \<open>self.electricalProperties\<close> with twelve positional arguments, against the seven
  parameters of that method, which is a \<open>TypeError\<close>; no value is ever appended to
  \<open>sMatrix\<close>.
\<close>

definition sweep_body :: "real \<Rightarrow> real \<Rightarrow> error + real" where
  "sweep_body U tauStep =
     (case load_name ''np'' of
        Inl e \<Rightarrow> Inl e
      | Inr _ \<Rightarrow>
         (case load_name ''Erange'' of
            Inl e \<Rightarrow> Inl e
          | Inr _ \<Rightarrow> Inl TypeError))"

text \<open>
  The loop state is \<open>(n, m, sMatrix)\<close>: the outer loop counts \<open>m\<close> up before it
  enters the inner loop, the inner loop appends to \<open>sMatrix\<close> and counts \<open>n\<close> up.
\<close>

fun inner_loop :: "real \<Rightarrow> real list \<Rightarrow> nat \<times> real list \<Rightarrow> error + (nat \<times> real list)" where
  "inner_loop U [] st = Inr st"
| "inner_loop U (t # ts) (n, sMatrix) =
     (case sweep_body U t of
        Inl e \<Rightarrow> Inl e
      | Inr s \<Rightarrow> inner_loop U ts (n + 1, sMatrix @ [s]))"

fun outer_loop ::
  "real \<Rightarrow> real \<Rightarrow> real list \<Rightarrow> nat \<times> nat \<times> real list \<Rightarrow> error + (nat \<times> nat \<times> real list)" where
  "outer_loop tau0 tauIncrement [] st = Inr st"
| "outer_loop tau0 tauIncrement (U # Us) (n, m, sMatrix) =
     (let m' = m + 1
      in case arange tauIncrement tau0 tauIncrement of
           Inl e \<Rightarrow> Inl e
         | Inr taus \<Rightarrow>
            (case inner_loop U taus (n, sMatrix) of
               Inl e \<Rightarrow> Inl e
             | Inr (n', sMatrix') \<Rightarrow> outer_loop tau0 tauIncrement Us (n', m', sMatrix')))"

text \<open>\<open>np.reshape(a, (n, m))\<close> of a flat array: \<open>n\<close> rows of \<open>m\<close> values when the sizes agree.\<close>

fun chop :: "nat \<Rightarrow> nat \<Rightarrow> 'a list \<Rightarrow> 'a list list" where
  "chop 0 m xs = []"
| "chop (Suc n) m xs = take m xs # chop n m (drop m xs)"

definition reshape :: "real list \<Rightarrow> nat \<Rightarrow> nat \<Rightarrow> error + real list list" where
  "reshape a n m = (if length a = n * m then Inr (chop n m a) else Inl ValueError)"

text \<open>
  \<open>filteringEffect(U0, tau0, ..., uIncrement=0.05, tauIncrement=1e-15, tempIndex=0)\<close>:
  the sweep over \<open>np.arange(0.1, U0, uIncrement)\<close> and, inside it, over
  \<open>np.arange(tauIncrement, tau0, tauIncrement)\<close>, then
  \<open>np.reshape(sMatrix, (n, m))\<close>.  The array arguments are read only inside the loop
  body, after the statement that raises.
\<close>

definition filteringEffect :: "real \<Rightarrow> real \<Rightarrow> real \<Rightarrow> real \<Rightarrow> error + real list list" where
  "filteringEffect U0 tau0 uIncrement tauIncrement =
     (case arange (1 / 10) U0 uIncrement of
        Inl e \<Rightarrow> Inl e
      | Inr Us \<Rightarrow>
         (case outer_loop tau0 tauIncrement Us (0, 0, []) of
            Inl e \<Rightarrow> Inl e
          | Inr (n, m, sMatrix) \<Rightarrow> reshape sMatrix n m))"

section \<open>Vocabulary of the statements and proofs\<close>

subsection \<open>The specification's reading of the Fermi solve\<close>

text \<open>
  The Fermi-Dirac occupation, the trapezoidal integral of the density of states times
  the occupation over the grid, and the \<open>k\<close>-th of the 4000 uniformly spaced candidates
  of the window from \<open>initialGuess - 0.2\<close> to \<open>initialGuess + 0.2\<close>.
\<close>

definition spec_occupation :: "real \<Rightarrow> real \<Rightarrow> real \<Rightarrow> real" where
  "spec_occupation E Ef T = 1 / (exp ((E - Ef) / (kB * T)) + 1)"

definition spec_occupation_integral :: "real list \<Rightarrow> real list \<Rightarrow> real \<Rightarrow> real \<Rightarrow> real" where
  "spec_occupation_integral E DoS Ef T =
     spec_trapezoid (\<lambda>i. DoS ! i * spec_occupation (E ! i) Ef T) E"

definition spec_candidate :: "real \<Rightarrow> nat \<Rightarrow> real" where
  "spec_candidate initialGuess k = (initialGuess - 2 / 10) + real k * ((4 / 10) / 3999)"

text \<open>
  The index that \<open>argmin\<close> returns (0 for the empty row, where it raises), and the row
  the solver hands to \<open>argmin\<close> for one temperature index: target \<open>c\<close>, temperature
  \<open>T\<close>, initial guess \<open>a\<close>.
\<close>

definition argmin_index :: "real list \<Rightarrow> nat" where
  "argmin_index xs = (case argmin xs of Inl _ \<Rightarrow> 0 | Inr k \<Rightarrow> k)"

definition solver_row :: "real list \<Rightarrow> real list \<Rightarrow> real \<Rightarrow> real \<Rightarrow> real \<Rightarrow> real list" where
  "solver_row E DoS c T a =
     map (\<lambda>k. \<bar>c - \<bar>spec_occupation_integral E DoS (spec_candidate a k) T\<bar>\<bar>) [0..<4000]"

subsection \<open>Rows of the transport integrands\<close>

text \<open>One row of \<open>X\<close> and one row of \<open>Y\<close> (or of \<open>Z\<close>, from a row of \<open>Y\<close>), as the code builds them.\<close>

definition X_row :: "real list \<Rightarrow> real list \<Rightarrow> real list \<Rightarrow> real list" where
  "X_row DoS vg df = map2 (*) (map2 (\<lambda>d v. d * v ^ 2) DoS vg) df"

definition Y_row :: "real list \<Rightarrow> real \<Rightarrow> real list \<Rightarrow> real list" where
  "Y_row E ef x = map2 (\<lambda>e x. (e - ef) * x) E x"

subsection \<open>Matthiessen's rule at one position\<close>





subsection \<open>Instances used in the examples\<close>

definition Si :: thermoelectricProperties where
  "Si = \<lparr>latticeParameter = 5401803661945516 / 10 ^ 25, dopantElectricCharge = 1,
      electronEffectiveMass = 108 / 100 * me, dielectric = 117 / 10, numKpoints = 800,
      numBands = Some 8, numQpoints = Some 201, energyMin = 0, energyMax = 1,
      numEnergySampling = 1000\<rparr>"


definition reversed_grid :: thermoelectricProperties where
  "reversed_grid = \<lparr>latticeParameter = 5, dopantElectricCharge = 1, electronEffectiveMass = 1,
      dielectric = 117 / 10, numKpoints = 800, numBands = None, numQpoints = None, energyMin = 2, energyMax = 0, numEnergySampling = 3\<rparr>"

definition single_sample_grid :: thermoelectricProperties where
  "single_sample_grid = \<lparr>latticeParameter = 5, dopantElectricCharge = 1, electronEffectiveMass = 1,
      dielectric = 117 / 10, numKpoints = 800, numBands = None, numQpoints = None, energyMin = 0, energyMax = 2, numEnergySampling = 1\<rparr>"

definition negative_count_grid :: thermoelectricProperties where
  "negative_count_grid = \<lparr>latticeParameter = 5, dopantElectricCharge = 1, electronEffectiveMass = 1,
      dielectric = 117 / 10, numKpoints = 800, numBands = None, numQpoints = None, energyMin = 0, energyMax = 2,
      numEnergySampling = - 1\<rparr>"

section \<open>Energy grid: properties\<close>

lemma linspace_samples:
  assumes "2 \<le> num"
  shows "\<exists>g. linspace a b num = Inr g \<and> length g = nat num \<and>
             (\<forall>i < nat num. g ! i = a + real i * ((b - a) / real (nat num - 1)))"
  using assms
  by (auto simp: linspace_def Let_def nth_list_update field_simps)




text \<open>
  Claim C10 as stated fails: a reversed range (\<open>energyMax \<le> energyMin\<close>) and a single
  sample (\<open>count < 2\<close>) are both accepted, and a grid comes back.
\<close>

theorem energyRange_bad_range_succeeds:
  "energyMax reversed_grid \<le> energyMin reversed_grid
   \<and> energyRange reversed_grid = Inr [[2, 1, 0]]
   \<and> numEnergySampling single_sample_grid < 2
   \<and> energyRange single_sample_grid = Inr [[0]]"
  by (simp add: reversed_grid_def single_sample_grid_def energyRange_def linspace_def Let_def
      eval_nat_numeral)

text \<open>
  Claim C10, amended.  \<open>energyRange\<close> validates nothing itself: it fails exactly when the
  sample count is negative, with the \<open>ValueError\<close> of \<open>np.linspace\<close>, and for every
  other input (whatever the order of the bounds) it returns one row of
  \<open>numEnergySampling\<close> samples.
\<close>

theorem energyRange_no_range_validation:
  "((energyRange self = Inl err) = (numEnergySampling self < 0 \<and> err = ValueError))
   \<and> ((\<exists>g. energyRange self = Inr [g] \<and> length g = nat (numEnergySampling self))
        = (0 \<le> numEnergySampling self))"
  by (auto simp: energyRange_def linspace_def Let_def split: sum.splits)

theorem energyRange_no_range_validation_witness:
  "numEnergySampling negative_count_grid < 0
   \<and> energyRange negative_count_grid = Inl ValueError
   \<and> 0 \<le> numEnergySampling reversed_grid
   \<and> energyRange reversed_grid \<noteq> Inl ValueError"
proof -
  have n: "numEnergySampling negative_count_grid < 0" by (simp add: negative_count_grid_def)
  have p: "0 \<le> numEnergySampling reversed_grid" by (simp add: reversed_grid_def)
  have "energyRange negative_count_grid = Inl ValueError"
    using energyRange_no_range_validation [of negative_count_grid ValueError] n by simp
  moreover have "energyRange reversed_grid \<noteq> Inl ValueError"
    using energyRange_no_range_validation [of reversed_grid ValueError] p by simp
  ultimately show ?thesis using n p by simp
qed

section \<open>Fermi-Dirac occupation: properties\<close>







section \<open>Self-consistent Fermi level: properties\<close>

subsection \<open>Trapezoidal rule\<close>

lemma trapz_spec_trapezoid:
  assumes "length y = length x"
  shows "trapz y x = spec_trapezoid (\<lambda>i. y ! i) x"
proof -
  have "map2 (\<lambda>d s. d * s / 2) (np_diff x) (map2 (+) (tl y) (butlast y))
        = map (\<lambda>i. (x ! Suc i - x ! i) * (y ! i + y ! Suc i) / 2) [0..<length x - 1]"
    using assms
    by (intro nth_equalityI) (simp_all add: np_diff_def nth_tl nth_butlast add.commute)
  then show ?thesis by (simp add: trapz_def spec_trapezoid_def)
qed

lemma spec_trapezoid_cong:
  assumes "\<And>i. i < length E \<Longrightarrow> f i = g i"
  shows "spec_trapezoid f E = spec_trapezoid g E"
proof -
  have "map (\<lambda>i. (E ! Suc i - E ! i) * (f i + f (Suc i)) / 2) [0..<length E - 1]
      = map (\<lambda>i. (E ! Suc i - E ! i) * (g i + g (Suc i)) / 2) [0..<length E - 1]"
  proof (intro map_cong refl)
    fix i assume "i \<in> set [0..<length E - 1]"
    then have "i < length E" and "Suc i < length E" by auto
    then have "f i = g i" and "f (Suc i) = g (Suc i)" using assms by blast+
    then show "(E ! Suc i - E ! i) * (f i + f (Suc i)) / 2 = (E ! Suc i - E ! i) * (g i + g (Suc i)) / 2"
      by simp
  qed
  then show ?thesis by (simp only: spec_trapezoid_def)
qed

lemma trapz_pointwise:
  assumes "length y = length E" and "\<And>i. i < length E \<Longrightarrow> y ! i = f i"
  shows "trapz y E = spec_trapezoid f E"
  using trapz_spec_trapezoid [OF assms(1)] spec_trapezoid_cong [of E "\<lambda>i. y ! i" f] assms(2)
  by simp

lemma carrier_integral_value:
  assumes "length DoS = length E"
  shows "carrier_integral E DoS i j = Inr (spec_occupation_integral E DoS i j)"
proof -
  let ?f = "map (\<lambda>e. 1 / (exp ((e - i) / j / kB) + 1)) E"
  have "carrier_integral E DoS i j = Inr (trapz (map2 (*) DoS ?f) E)"
    by (simp add: carrier_integral_def fermiDistribution_def Let_def comp_def)
  also have "trapz (map2 (*) DoS ?f) E = spec_trapezoid (\<lambda>k. map2 (*) DoS ?f ! k) E"
    using assms by (intro trapz_spec_trapezoid) simp
  also have "\<dots> = spec_occupation_integral E DoS i j"
    unfolding spec_occupation_integral_def
    using assms by (intro spec_trapezoid_cong) (simp add: spec_occupation_def mult.commute)
  finally show ?thesis .
qed

lemma collect_map_Inr:
  assumes "\<And>x. x \<in> set xs \<Longrightarrow> f x = Inr (g x)"
  shows "collect (map f xs) = Inr (map g xs)"
  using assms by (induction xs) simp_all

subsection \<open>First minimum\<close>

lemma argmin_scan_first_min:
  assumes "length pre = i" and "best < i" and "pre ! best = mp"
    and "\<forall>j < i. mp \<le> pre ! j" and "\<forall>j < best. mp < pre ! j"
  shows "argmin_scan mp best i xs < i + length xs
       \<and> (\<forall>j < i + length xs. (pre @ xs) ! argmin_scan mp best i xs \<le> (pre @ xs) ! j)
       \<and> (\<forall>j < argmin_scan mp best i xs. (pre @ xs) ! argmin_scan mp best i xs < (pre @ xs) ! j)"
  using assms
proof (induction xs arbitrary: pre i best mp)
  case Nil
  then show ?case by simp
next
  case (Cons x xs)
  let ?pre = "pre @ [x]"
  have len: "length ?pre = Suc i" using Cons.prems(1) by simp
  show ?case
  proof (cases "x < mp")
    case True
    have b: "i < Suc i" by simp
    have v: "?pre ! i = x" using Cons.prems(1) by auto
    have lo: "\<forall>j < Suc i. x \<le> ?pre ! j"
    proof (intro allI impI)
      fix j assume "j < Suc i"
      then consider "j < i" | "j = i" by linarith
      then show "x \<le> ?pre ! j"
      proof cases
        case 1
        then have "mp \<le> pre ! j" using Cons.prems(4) by simp
        then show ?thesis using True 1 Cons.prems(1) by (simp add: nth_append)
      next
        case 2
        then show ?thesis using v by simp
      qed
    qed
    have st: "\<forall>j < i. x < ?pre ! j"
    proof (intro allI impI)
      fix j assume j: "j < i"
      then have "mp \<le> pre ! j" using Cons.prems(4) by simp
      then show "x < ?pre ! j" using True j Cons.prems(1) by (simp add: nth_append)
    qed
    from Cons.IH [OF len b v lo st] True show ?thesis by simp
  next
    case False
    have b: "best < Suc i" using Cons.prems(2) by simp
    have v: "?pre ! best = mp" using Cons.prems by (simp add: nth_append)
    have lo: "\<forall>j < Suc i. mp \<le> ?pre ! j"
    proof (intro allI impI)
      fix j assume "j < Suc i"
      then consider "j < i" | "j = i" by linarith
      then show "mp \<le> ?pre ! j"
      proof cases
        case 1
        then show ?thesis using Cons.prems(1,4) by (simp add: nth_append)
      next
        case 2
        then show ?thesis using False Cons.prems(1) by auto
      qed
    qed
    have st: "\<forall>j < best. mp < ?pre ! j"
      using Cons.prems(1,2,5) by (simp add: nth_append)
    from Cons.IH [OF len b v lo st] False show ?thesis by simp
  qed
qed

lemma argmin_first_min:
  assumes "xs \<noteq> []"
  shows "\<exists>k. argmin xs = Inr k \<and> k < length xs
           \<and> (\<forall>j < length xs. xs ! k \<le> xs ! j) \<and> (\<forall>j < k. xs ! k < xs ! j)"
proof -
  from assms obtain x rest where xs: "xs = x # rest" by (cases xs) auto
  have "argmin_scan x 0 1 rest < 1 + length rest
       \<and> (\<forall>j < 1 + length rest. ([x] @ rest) ! argmin_scan x 0 1 rest \<le> ([x] @ rest) ! j)
       \<and> (\<forall>j < argmin_scan x 0 1 rest. ([x] @ rest) ! argmin_scan x 0 1 rest < ([x] @ rest) ! j)"
    by (rule argmin_scan_first_min) simp_all
  then show ?thesis using xs by (simp add: argmin_def)
qed

lemma argmin_index_first_min:
  assumes "xs \<noteq> []"
  shows "argmin xs = Inr (argmin_index xs)" and "argmin_index xs < length xs"
    and "\<And>j. j < length xs \<Longrightarrow> xs ! argmin_index xs \<le> xs ! j"
    and "\<And>j. j < argmin_index xs \<Longrightarrow> xs ! argmin_index xs < xs ! j"
proof -
  from argmin_first_min [OF assms] obtain k where
    k: "argmin xs = Inr k" "k < length xs" "\<forall>j < length xs. xs ! k \<le> xs ! j" "\<forall>j < k. xs ! k < xs ! j"
    by blast
  then have e: "argmin_index xs = k" by (simp add: argmin_index_def)
  show "argmin xs = Inr (argmin_index xs)" using k e by simp
  show "argmin_index xs < length xs" using k e by simp
  show "\<And>j. j < length xs \<Longrightarrow> xs ! argmin_index xs \<le> xs ! j" using k e by simp
  show "\<And>j. j < argmin_index xs \<Longrightarrow> xs ! argmin_index xs < xs ! j" using k e by simp
qed

subsection \<open>The solver in closed form\<close>

lemma linspace_window:
  "linspace (a - 2 / 10) (a + 2 / 10) 4000 = Inr (map (spec_candidate a) [0..<4000])"
proof -
  from linspace_samples [of 4000 "a - 2 / 10" "a + 2 / 10"] obtain g where
    g: "linspace (a - 2 / 10) (a + 2 / 10) 4000 = Inr g" and len: "length g = 4000"
    and nth: "\<forall>i < 4000. g ! i = (a - 2 / 10) + real i * ((a + 2 / 10 - (a - 2 / 10)) / 3999)"
    by auto
  have "g = map (spec_candidate a) [0..<4000]"
  proof (rule nth_equalityI)
    show "length g = length (map (spec_candidate a) [0..<4000])" using len by simp
    fix i assume "i < length g"
    then have i: "i < 4000" using len by simp
    then have "g ! i = (a - 2 / 10) + real i * ((a + 2 / 10 - (a - 2 / 10)) / 3999)"
      using nth by blast
    also have "\<dots> = spec_candidate a i" by (simp add: spec_candidate_def)
    finally show "g ! i = map (spec_candidate a) [0..<4000] ! i" using i by simp
  qed
  with g show ?thesis by simp
qed

lemma solver_row_nth:
  "k < 4000 \<Longrightarrow> solver_row E DoS c T a ! k
     = \<bar>c - \<bar>spec_occupation_integral E DoS (spec_candidate a k) T\<bar>\<bar>"
  by (simp add: solver_row_def)

lemma solver_row_length: "length (solver_row E DoS c T a) = 4000"
  by (simp add: solver_row_def)

lemma fermiLevelSelfConsistent_closed_form:
  assumes "length cc = length Temp" and "length fl = length Temp" and "length DoS = length E"
  shows "fermiLevelSelfConsistent cc Temp E DoS fl =
           Inr (map (\<lambda>t. spec_candidate (fl ! t) (argmin_index (solver_row E DoS (cc ! t) (Temp ! t) (fl ! t))))
                    [0..<length Temp],
                map (\<lambda>t. spec_occupation_integral E DoS
                            (spec_candidate (fl ! t) (argmin_index (solver_row E DoS (cc ! t) (Temp ! t) (fl ! t))))
                            (Temp ! t))
                    [0..<length Temp])"
proof -
  define fermi where "fermi = map (\<lambda>a. map (spec_candidate a) [0..<4000]) fl"
  define result_array where
    "result_array = map2 (\<lambda>j row. map (\<lambda>i. spec_occupation_integral E DoS i j) row) Temp fermi"
  define diff where "diff = map2 (\<lambda>c row. map (\<lambda>r. c - \<bar>r\<bar>) row) cc result_array"
  define min_idx where "min_idx = map (\<lambda>row. argmin_index (map abs row)) diff"
  have c1: "collect (map (\<lambda>a. linspace (a - 2 / 10) (a + 2 / 10) 4000) fl) = Inr fermi"
    unfolding fermi_def by (rule collect_map_Inr) (rule linspace_window)
  have c2: "collect (map2 (\<lambda>j row. collect (map (\<lambda>i. carrier_integral E DoS i j) row)) Temp fermi)
             = Inr result_array"
    unfolding result_array_def
  proof (rule collect_map_Inr)
    fix p assume "p \<in> set (zip Temp fermi)"
    show "(case p of (j, row) \<Rightarrow> collect (map (\<lambda>i. carrier_integral E DoS i j) row))
          = Inr (case p of (j, row) \<Rightarrow> map (\<lambda>i. spec_occupation_integral E DoS i j) row)"
      by (cases p) (simp add: collect_map_Inr carrier_integral_value [OF assms(3)])
  qed
  have len_f: "length fermi = length Temp" using assms by (simp add: fermi_def)
  have len_r: "length result_array = length Temp" using len_f by (simp add: result_array_def)
  have len_d: "length diff = length Temp" using len_r assms by (simp add: diff_def)
  have row_f: "fermi ! t = map (spec_candidate (fl ! t)) [0..<4000]" if "t < length Temp" for t
    using that assms by (simp add: fermi_def)
  have row_r: "result_array ! t
      = map (\<lambda>k. spec_occupation_integral E DoS (spec_candidate (fl ! t) k) (Temp ! t)) [0..<4000]"
    if "t < length Temp" for t
    using that len_f row_f [OF that] by (simp add: result_array_def)
  have row_d: "map abs (diff ! t) = solver_row E DoS (cc ! t) (Temp ! t) (fl ! t)"
    if "t < length Temp" for t
    using that len_r assms row_r [OF that] by (simp add: diff_def solver_row_def)
  have c3: "collect (map (\<lambda>row. argmin (map abs row)) diff) = Inr min_idx"
    unfolding min_idx_def
  proof (rule collect_map_Inr)
    fix row assume "row \<in> set diff"
    then obtain t where t: "t < length Temp" and row: "row = diff ! t"
      using len_d by (metis in_set_conv_nth)
    have "map abs row \<noteq> []" using row_d [OF t] row by (simp add: solver_row_def)
    then show "argmin (map abs row) = Inr (argmin_index (map abs row))" by (rule argmin_index_first_min(1))
  qed
  have len_m: "length min_idx = length Temp" using len_d by (simp add: min_idx_def)
  have idx: "min_idx ! t = argmin_index (solver_row E DoS (cc ! t) (Temp ! t) (fl ! t))"
    if "t < length Temp" for t
    using that len_d row_d [OF that] by (simp add: min_idx_def)
  have bound: "min_idx ! t < 4000" if "t < length Temp" for t
    using argmin_index_first_min(2) [of "solver_row E DoS (cc ! t) (Temp ! t) (fl ! t)"] idx [OF that]
    by (simp add: solver_row_def)
  have Ef: "map2 (\<lambda>row k. row ! k) fermi min_idx
      = map (\<lambda>t. spec_candidate (fl ! t) (argmin_index (solver_row E DoS (cc ! t) (Temp ! t) (fl ! t))))
            [0..<length Temp]"
  proof (rule nth_equalityI)
    show "length (map2 (\<lambda>row k. row ! k) fermi min_idx) = length (map (\<lambda>t. spec_candidate (fl ! t) (argmin_index (solver_row E DoS (cc ! t) (Temp ! t) (fl ! t)))) [0..<length Temp])"
      using len_f len_m by simp
    fix t assume "t < length (map2 (\<lambda>row k. row ! k) fermi min_idx)"
    then have t: "t < length Temp" using len_f len_m by simp
    show "map2 (\<lambda>row k. row ! k) fermi min_idx ! t = map (\<lambda>t. spec_candidate (fl ! t) (argmin_index (solver_row E DoS (cc ! t) (Temp ! t) (fl ! t)))) [0..<length Temp] ! t"
      using t len_f len_m row_f [OF t] bound [OF t] idx [OF t] by simp
  qed
  have n: "map2 (\<lambda>row k. row ! k) result_array min_idx
      = map (\<lambda>t. spec_occupation_integral E DoS
                            (spec_candidate (fl ! t) (argmin_index (solver_row E DoS (cc ! t) (Temp ! t) (fl ! t))))
                            (Temp ! t))
            [0..<length Temp]"
  proof (rule nth_equalityI)
    show "length (map2 (\<lambda>row k. row ! k) result_array min_idx) = length (map (\<lambda>t. spec_occupation_integral E DoS
                            (spec_candidate (fl ! t) (argmin_index (solver_row E DoS (cc ! t) (Temp ! t) (fl ! t))))
                            (Temp ! t)) [0..<length Temp])"
      using len_r len_m by simp
    fix t assume "t < length (map2 (\<lambda>row k. row ! k) result_array min_idx)"
    then have t: "t < length Temp" using len_r len_m by simp
    show "map2 (\<lambda>row k. row ! k) result_array min_idx ! t = map (\<lambda>t. spec_occupation_integral E DoS
                            (spec_candidate (fl ! t) (argmin_index (solver_row E DoS (cc ! t) (Temp ! t) (fl ! t))))
                            (Temp ! t)) [0..<length Temp] ! t"
      using t len_r len_m row_r [OF t] bound [OF t] idx [OF t] by simp
  qed
  have "fermiLevelSelfConsistent cc Temp E DoS fl
        = Inr (map2 (\<lambda>row k. row ! k) fermi min_idx, map2 (\<lambda>row k. row ! k) result_array min_idx)"
    using assms c1 c2 c3
    by (simp add: fermiLevelSelfConsistent_def diff_def [symmetric] Let_def)
  then show ?thesis by (simp only: Ef n)
qed

subsection \<open>A density of states with negative values\<close>

text \<open>
  With \<open>DoS = [-1, -1]\<close> on the grid \<open>[0, 1]\<close> the integral is
  \<open>- (f(0) + f(1)) / 2\<close>, negative and decreasing in the Fermi level, so the distance
  of its absolute value from the target 1 shrinks along the window.
\<close>

lemma spec_occupation_range: "0 < spec_occupation E Ef T" "spec_occupation E Ef T < 1"
proof -
  have "0 < exp ((E - Ef) / (kB * T))" by simp
  then show "0 < spec_occupation E Ef T" "spec_occupation E Ef T < 1"
    by (simp_all add: spec_occupation_def add_pos_pos)
qed

lemma spec_occupation_strict_mono:
  assumes "Ef < Ef'" and "0 < T"
  shows "spec_occupation E Ef T < spec_occupation E Ef' T"
proof -
  have c: "0 < kB * T" using assms(2) by (simp add: kB_def)
  have "E - Ef' < E - Ef" using assms(1) by simp
  then have "(E - Ef') / (kB * T) < (E - Ef) / (kB * T)"
    using c by (rule divide_strict_right_mono)
  then have "exp ((E - Ef') / (kB * T)) + 1 < exp ((E - Ef) / (kB * T)) + 1" by simp
  moreover have "0 < exp ((E - Ef') / (kB * T)) + 1" by (simp add: add_pos_pos)
  ultimately show ?thesis
    unfolding spec_occupation_def by (simp add: frac_less2 del: exp_less_cancel_iff)
qed

lemma negative_dos_integral:
  "spec_occupation_integral [0, 1] [- 1, - 1] Ef T
     = - (spec_occupation 0 Ef T + spec_occupation 1 Ef T) / 2"
  by (simp add: spec_occupation_integral_def spec_trapezoid_def)

lemma spec_candidate_strict_mono: "k < k' \<Longrightarrow> spec_candidate a k < spec_candidate a k'"
  by (simp add: spec_candidate_def)

lemma negative_dos_row_decreasing:
  assumes "k < k'" and "k' < 4000"
  shows "solver_row [0, 1] [- 1, - 1] 1 10000 0 ! k' < solver_row [0, 1] [- 1, - 1] 1 10000 0 ! k"
proof -
  let ?c = "spec_candidate 0 k" and ?c' = "spec_candidate 0 k'"
  have c: "?c < ?c'" using assms(1) by (rule spec_candidate_strict_mono)
  have T: "(0::real) < 10000" by simp
  note m0 = spec_occupation_strict_mono [OF c T, of 0]
    and m1 = spec_occupation_strict_mono [OF c T, of 1]
  note r0 = spec_occupation_range [of 0 ?c 10000] and r1 = spec_occupation_range [of 1 ?c 10000]
  note r0' = spec_occupation_range [of 0 ?c' 10000] and r1' = spec_occupation_range [of 1 ?c' 10000]
  have "k < 4000" using assms by simp
  then show ?thesis
    using assms(2) m0 m1 r0 r1 r0' r1'
    by (simp add: solver_row_nth negative_dos_integral)
qed

lemma negative_dos_argmin: "argmin_index (solver_row [0, 1] [- 1, - 1] 1 10000 0) = 3999"
proof -
  let ?row = "solver_row [0, 1] [- 1, - 1] 1 10000 0"
  have ne: "?row \<noteq> []" by (simp add: solver_row_def)
  have kb: "argmin_index ?row < 4000"
    using argmin_index_first_min(2) [OF ne] by (simp add: solver_row_length)
  have "\<not> argmin_index ?row < 3999"
  proof
    assume "argmin_index ?row < 3999"
    then have "?row ! 3999 < ?row ! argmin_index ?row"
      by (intro negative_dos_row_decreasing) simp_all
    moreover have "?row ! argmin_index ?row \<le> ?row ! 3999"
      using argmin_index_first_min(3) [OF ne, of 3999] by (simp add: solver_row_length)
    ultimately show False by simp
  qed
  with kb show ?thesis by simp
qed

text \<open>
  Claim C1 as stated fails where the integral is negative: for the target 1, the
  temperature 10000 K, the grid \<open>[0, 1]\<close>, \<open>DoS = [-1, -1]\<close> and the initial guess 0, the
  solver returns the last candidate of the window, although the first candidate has a
  strictly smaller distance \<open>|integral - target|\<close>.
\<close>

theorem fermiLevelSelfConsistent_not_nearest_to_integral:
  "fermiLevelSelfConsistent [1] [10000] [0, 1] [- 1, - 1] [0]
     = Inr ([spec_candidate 0 3999],
            [spec_occupation_integral [0, 1] [- 1, - 1] (spec_candidate 0 3999) 10000])
   \<and> \<bar>spec_occupation_integral [0, 1] [- 1, - 1] (spec_candidate 0 0) 10000 - 1\<bar>
       < \<bar>spec_occupation_integral [0, 1] [- 1, - 1] (spec_candidate 0 3999) 10000 - 1\<bar>"
proof -
  have "fermiLevelSelfConsistent [1] [10000] [0, 1] [- 1, - 1] [0]
     = Inr ([spec_candidate 0 3999],
            [spec_occupation_integral [0, 1] [- 1, - 1] (spec_candidate 0 3999) 10000])"
    using fermiLevelSelfConsistent_closed_form [of "[1]" "[10000]" "[0]" "[- 1, - 1]" "[0, 1]"]
    by (simp add: negative_dos_argmin)
  moreover have "\<bar>spec_occupation_integral [0, 1] [- 1, - 1] (spec_candidate 0 0) 10000 - 1\<bar>
       < \<bar>spec_occupation_integral [0, 1] [- 1, - 1] (spec_candidate 0 3999) 10000 - 1\<bar>"
  proof -
    let ?c = "spec_candidate 0 0" and ?c' = "spec_candidate 0 3999"
    have c: "?c < ?c'" by (rule spec_candidate_strict_mono) simp
    have T: "(0::real) < 10000" by simp
    note m0 = spec_occupation_strict_mono [OF c T, of 0]
      and m1 = spec_occupation_strict_mono [OF c T, of 1]
    note r0 = spec_occupation_range [of 0 ?c 10000] and r1 = spec_occupation_range [of 1 ?c 10000]
    note r0' = spec_occupation_range [of 0 ?c' 10000] and r1' = spec_occupation_range [of 1 ?c' 10000]
    show ?thesis using m0 m1 r0 r1 r0' r1' by (simp add: negative_dos_integral)
  qed
  ultimately show ?thesis by simp
qed

text \<open>
  Claim C1, amended.  On co-indexed arrays and non-zero temperatures the solver returns,
  per temperature index, a candidate of the 4000-point window from \<open>guess - 0.2\<close> to
  \<open>guess + 0.2\<close> that minimizes \<open>|target - |integral||\<close>, the distance between the target
  and the \<^emph>\<open>absolute value\<close> of the trapezoidal integral of \<open>DoS\<close> times the occupation;
  every earlier candidate is strictly worse (ties go to the lowest-energy minimizer); and
  the second result is the (signed) integral at the selected candidate.  Where no
  candidate of the window has a negative integral, the selected candidate also minimizes
  \<open>|integral - target|\<close>.  The solver is a function of its arguments, so equal inputs
  give the equal index.
\<close>

theorem fermiLevelSelfConsistent_nearest_match:
  assumes "length cc = length Temp" and "length fl = length Temp" and "length DoS = length E"
    and "0 \<notin> set Temp"
  shows "\<exists>Ef n. fermiLevelSelfConsistent cc Temp E DoS fl = Inr (Ef, n)
           \<and> length Ef = length Temp \<and> length n = length Temp
           \<and> (\<forall>t < length Temp. \<exists>k < 4000.
                 Ef ! t = spec_candidate (fl ! t) k
               \<and> n ! t = spec_occupation_integral E DoS (Ef ! t) (Temp ! t)
               \<and> (\<forall>k' < 4000. \<bar>cc ! t - \<bar>n ! t\<bar>\<bar>
                     \<le> \<bar>cc ! t - \<bar>spec_occupation_integral E DoS (spec_candidate (fl ! t) k') (Temp ! t)\<bar>\<bar>)
               \<and> (\<forall>k' < k. \<bar>cc ! t - \<bar>n ! t\<bar>\<bar>
                     < \<bar>cc ! t - \<bar>spec_occupation_integral E DoS (spec_candidate (fl ! t) k') (Temp ! t)\<bar>\<bar>)
               \<and> ((\<forall>k' < 4000. 0 \<le> spec_occupation_integral E DoS (spec_candidate (fl ! t) k') (Temp ! t))
                    \<longrightarrow> (\<forall>k' < 4000. \<bar>n ! t - cc ! t\<bar>
                     \<le> \<bar>spec_occupation_integral E DoS (spec_candidate (fl ! t) k') (Temp ! t) - cc ! t\<bar>)))"
proof -
  let ?row = "\<lambda>t. solver_row E DoS (cc ! t) (Temp ! t) (fl ! t)"
  let ?k = "\<lambda>t. argmin_index (?row t)"
  let ?Ef = "map (\<lambda>t. spec_candidate (fl ! t) (?k t)) [0..<length Temp]"
  let ?n = "map (\<lambda>t. spec_occupation_integral E DoS (spec_candidate (fl ! t) (?k t)) (Temp ! t))
              [0..<length Temp]"
  have res: "fermiLevelSelfConsistent cc Temp E DoS fl = Inr (?Ef, ?n)"
    by (rule fermiLevelSelfConsistent_closed_form [OF assms(1-3)])
  have sel: "\<exists>k < 4000.
                 ?Ef ! t = spec_candidate (fl ! t) k
               \<and> ?n ! t = spec_occupation_integral E DoS (?Ef ! t) (Temp ! t)
               \<and> (\<forall>k' < 4000. \<bar>cc ! t - \<bar>?n ! t\<bar>\<bar>
                     \<le> \<bar>cc ! t - \<bar>spec_occupation_integral E DoS (spec_candidate (fl ! t) k') (Temp ! t)\<bar>\<bar>)
               \<and> (\<forall>k' < k. \<bar>cc ! t - \<bar>?n ! t\<bar>\<bar>
                     < \<bar>cc ! t - \<bar>spec_occupation_integral E DoS (spec_candidate (fl ! t) k') (Temp ! t)\<bar>\<bar>)
               \<and> ((\<forall>k' < 4000. 0 \<le> spec_occupation_integral E DoS (spec_candidate (fl ! t) k') (Temp ! t))
                    \<longrightarrow> (\<forall>k' < 4000. \<bar>?n ! t - cc ! t\<bar>
                     \<le> \<bar>spec_occupation_integral E DoS (spec_candidate (fl ! t) k') (Temp ! t) - cc ! t\<bar>))"
    if t: "t < length Temp" for t
  proof -
    have ne: "?row t \<noteq> []" by (simp add: solver_row_def)
    have kb: "?k t < 4000" using argmin_index_first_min(2) [OF ne] by (simp add: solver_row_length)
    have Eft: "?Ef ! t = spec_candidate (fl ! t) (?k t)" using t by simp
    have nt: "?n ! t = spec_occupation_integral E DoS (spec_candidate (fl ! t) (?k t)) (Temp ! t)"
      using t by simp
    have at_k: "?row t ! ?k t = \<bar>cc ! t - \<bar>?n ! t\<bar>\<bar>"
      using kb nt by (simp add: solver_row_nth)
    have le: "\<bar>cc ! t - \<bar>?n ! t\<bar>\<bar>
               \<le> \<bar>cc ! t - \<bar>spec_occupation_integral E DoS (spec_candidate (fl ! t) k') (Temp ! t)\<bar>\<bar>"
      if "k' < 4000" for k'
      using argmin_index_first_min(3) [OF ne, of k'] that at_k by (simp add: solver_row_length solver_row_nth)
    have lt: "\<bar>cc ! t - \<bar>?n ! t\<bar>\<bar>
               < \<bar>cc ! t - \<bar>spec_occupation_integral E DoS (spec_candidate (fl ! t) k') (Temp ! t)\<bar>\<bar>"
      if "k' < ?k t" for k'
    proof -
      have "k' < 4000" using that kb by simp
      then show ?thesis using argmin_index_first_min(4) [OF ne that] at_k by (simp add: solver_row_nth)
    qed
    have nn: "\<bar>?n ! t - cc ! t\<bar>
               \<le> \<bar>spec_occupation_integral E DoS (spec_candidate (fl ! t) k') (Temp ! t) - cc ! t\<bar>"
      if all: "\<forall>j < 4000. 0 \<le> spec_occupation_integral E DoS (spec_candidate (fl ! t) j) (Temp ! t)"
        and k': "k' < 4000" for k'
    proof -
      have "0 \<le> spec_occupation_integral E DoS (spec_candidate (fl ! t) k') (Temp ! t)"
        using all k' by blast
      moreover have "0 \<le> ?n ! t" using all kb nt by simp
      ultimately show ?thesis using le [OF k'] by (simp add: abs_minus_commute)
    qed
    show ?thesis
      apply (rule exI [of _ "?k t"])
      apply (intro conjI)
           apply (rule kb)
          apply (rule Eft)
         apply (simp only: Eft nt)
        apply (intro allI impI, erule le)
       apply (intro allI impI, erule lt)
      apply (intro allI impI, erule (1) nn)
      done
  qed
  show ?thesis
    apply (rule exI [of _ ?Ef], rule exI [of _ ?n])
    apply (intro conjI)
       apply (rule res)
      apply simp
     apply simp
    apply (intro allI impI, erule sel)
    done
qed

theorem fermiLevelSelfConsistent_nearest_match_witness:
  "length [1::real] = length [300::real] \<and> length [0::real] = length [300::real]
   \<and> length [0::real, 0] = length [0::real, 1] \<and> 0 \<notin> set [300::real]
   \<and> fermiLevelSelfConsistent [1] [300] [0, 1] [0, 0] [0] = Inr ([- 2 / 10], [0])"
proof -
  have a: "length [1::real] = length [300::real]" and b: "length [0::real] = length [300::real]"
    and c: "length [0::real, 0] = length [0::real, 1]" and d: "0 \<notin> set [300::real]"
    by simp_all
  from fermiLevelSelfConsistent_nearest_match [OF a b c d] obtain Ef n where
    res: "fermiLevelSelfConsistent [1] [300] [0, 1] [0, 0] [0] = Inr (Ef, n)"
    and lE: "length Ef = length [300::real]" and ln: "length n = length [300::real]"
    and sel: "\<forall>t < length [300::real]. \<exists>k < 4000.
                 Ef ! t = spec_candidate ([0] ! t) k
               \<and> n ! t = spec_occupation_integral [0, 1] [0, 0] (Ef ! t) ([300] ! t)
               \<and> (\<forall>k' < 4000. \<bar>[1] ! t - \<bar>n ! t\<bar>\<bar>
                     \<le> \<bar>[1] ! t - \<bar>spec_occupation_integral [0, 1] [0, 0] (spec_candidate ([0] ! t) k') ([300] ! t)\<bar>\<bar>)
               \<and> (\<forall>k' < k. \<bar>[1] ! t - \<bar>n ! t\<bar>\<bar>
                     < \<bar>[1] ! t - \<bar>spec_occupation_integral [0, 1] [0, 0] (spec_candidate ([0] ! t) k') ([300] ! t)\<bar>\<bar>)
               \<and> ((\<forall>k' < 4000. 0 \<le> spec_occupation_integral [0, 1] [0, 0] (spec_candidate ([0] ! t) k') ([300] ! t))
                    \<longrightarrow> (\<forall>k' < 4000. \<bar>n ! t - [1] ! t\<bar>
                     \<le> \<bar>spec_occupation_integral [0, 1] [0, 0] (spec_candidate ([0] ! t) k') ([300] ! t) - [1] ! t\<bar>))"
    by blast
  have zero: "spec_occupation_integral [0, 1] [0, 0] x y = 0" for x y
    by (simp add: spec_occupation_integral_def spec_trapezoid_def)
  from sel obtain k where k: "k < 4000" "Ef ! 0 = spec_candidate 0 k" "n ! 0 = 0"
    and first: "\<forall>k' < k. \<bar>1 - \<bar>n ! 0\<bar>\<bar> < \<bar>(1::real) - \<bar>0\<bar>\<bar>"
    by (auto simp: zero)
  have "k = 0"
  proof (rule ccontr)
    assume "k \<noteq> 0"
    then have "0 < k" by simp
    with first have "\<bar>1 - \<bar>n ! 0\<bar>\<bar> < \<bar>(1::real) - \<bar>0\<bar>\<bar>" by blast
    then show False using k(3) by simp
  qed
  then have "Ef ! 0 = - 2 / 10" using k(2) by (simp add: spec_candidate_def)
  moreover obtain e0 where "Ef = [e0]" using lE by (cases Ef) auto
  moreover obtain n0 where "n = [n0]" using ln by (cases n) auto
  ultimately have "Ef = [- 2 / 10]" "n = [0]" using k(3) by simp_all
  with res a b c d show ?thesis by simp
qed

section \<open>Transport coefficients: properties\<close>

lemma X_row_nth:
  assumes "length DoS = n" "length vg = n" "length df = n" "i < n"
  shows "length (X_row DoS vg df) = n" and "X_row DoS vg df ! i = spec_X DoS vg df i"
  using assms by (simp_all add: X_row_def spec_X_def)

lemma Y_row_nth:
  assumes "length E = n" "length x = n" "i < n"
  shows "length (Y_row E ef x) = n" and "Y_row E ef x ! i = (E ! i - ef) * x ! i"
  using assms by (simp_all add: Y_row_def)

lemma int_X_row:
  assumes "length DoS = length E" "length vg = length E" "length df = length E" "length ta = length E"
  shows "trapz (map2 (*) (X_row DoS vg df) ta) E = spec_int_X E DoS vg df ta"
  unfolding spec_int_X_def
  by (rule trapz_pointwise) (use assms in \<open>simp_all add: X_row_def spec_X_def\<close>)

lemma int_Y_row:
  assumes "length DoS = length E" "length vg = length E" "length df = length E" "length ta = length E"
  shows "trapz (map2 (*) (Y_row E ef (X_row DoS vg df)) ta) E = spec_int_Y E ef DoS vg df ta"
  unfolding spec_int_Y_def
  by (rule trapz_pointwise) (use assms in \<open>simp_all add: Y_row_def X_row_def spec_Y_def spec_X_def\<close>)

lemma int_Z_row:
  assumes "length DoS = length E" "length vg = length E" "length df = length E" "length ta = length E"
  shows "trapz (map2 (*) (Y_row E ef (Y_row E ef (X_row DoS vg df))) ta) E = spec_int_Z E ef DoS vg df ta"
  unfolding spec_int_Z_def
  by (rule trapz_pointwise)
    (use assms in \<open>simp_all add: Y_row_def X_row_def spec_Z_def spec_Y_def spec_X_def\<close>)

lemma moment1_row:
  assumes "length DoS = length E" "length vg = length E" "length df = length E" "length ta = length E"
  shows "trapz (map2 (*) (map2 (*) (X_row DoS vg df) ta) E) E
         = spec_trapezoid (\<lambda>i. spec_X DoS vg df i * ta ! i * E ! i) E"
  by (rule trapz_pointwise) (use assms in \<open>simp_all add: X_row_def spec_X_def\<close>)

lemma moment2_row:
  assumes "length DoS = length E" "length vg = length E" "length df = length E" "length ta = length E"
  shows "trapz (map2 (*) (map2 (*) (X_row DoS vg df) ta) (map (\<lambda>e. e ^ 2) E)) E
         = spec_trapezoid (\<lambda>i. spec_X DoS vg df i * ta ! i * (E ! i)\<^sup>2) E"
  by (rule trapz_pointwise) (use assms in \<open>simp_all add: X_row_def spec_X_def\<close>)

text \<open>
  Claim C2.  On co-indexed arrays, with non-zero temperatures and a non-zero integral
  of \<open>X * tau\<close>, \<open>electricalProperties\<close> returns at every temperature index the
  specification's \<open>Sigma\<close>, \<open>S\<close>, \<open>PF\<close>, \<open>ke\<close>, \<open>delta1\<close>, \<open>delta2\<close> and \<open>Lorenz\<close>, all
  integrals being trapezoidal sums over the grid.  (Exact arithmetic.)
\<close>

theorem electricalProperties_formulas:
  assumes "length DoS = length E" and "length vg = length E"
    and "\<forall>row \<in> set dfdE. length row = length E" and "\<forall>row \<in> set tau. length row = length E"
    and "length Ef = length Temp" and "length dfdE = length Temp" and "length tau = length Temp"
    and "0 \<notin> set Temp"
    and "\<forall>t < length Temp. spec_int_X E DoS vg (dfdE ! t) (tau ! t) \<noteq> 0"
  shows "\<exists>c. electricalProperties E DoS vg Ef dfdE Temp tau = Inr c
           \<and> length (c_Sigma c) = length Temp \<and> length (c_S c) = length Temp
           \<and> length (c_PF c) = length Temp \<and> length (c_ke c) = length Temp
           \<and> length (c_delta_1 c) = length Temp \<and> length (c_delta_2 c) = length Temp
           \<and> length (c_Lorenz c) = length Temp
           \<and> (\<forall>t < length Temp.
                 c_Sigma c ! t = spec_Sigma E DoS vg (dfdE ! t) (tau ! t)
               \<and> c_S c ! t = spec_S E (Ef ! t) DoS vg (dfdE ! t) (tau ! t) (Temp ! t)
               \<and> c_PF c ! t = spec_PF E (Ef ! t) DoS vg (dfdE ! t) (tau ! t) (Temp ! t)
               \<and> c_ke c ! t = spec_ke E (Ef ! t) DoS vg (dfdE ! t) (tau ! t) (Temp ! t)
               \<and> c_delta_1 c ! t = spec_delta1 E DoS vg (dfdE ! t) (tau ! t)
               \<and> c_delta_2 c ! t = spec_delta2 E DoS vg (dfdE ! t) (tau ! t)
               \<and> c_Lorenz c ! t = spec_Lorenz E DoS vg (dfdE ! t) (tau ! t) (Temp ! t))"
proof -
  define X where "X = map (\<lambda>row. map2 (*) (map2 (\<lambda>d v. d * v ^ 2) DoS vg) row) dfdE"
  define Y where "Y = map2 (\<lambda>ef row. map2 (\<lambda>e x. (e - ef) * x) E row) Ef X"
  define Z where "Z = map2 (\<lambda>ef row. map2 (\<lambda>e y. (e - ef) * y) E row) Ef Y"
  define IX where "IX = map2 (\<lambda>x t. trapz (map2 (*) x t) E) X tau"
  define IY where "IY = map2 (\<lambda>y t. trapz (map2 (*) y t) E) Y tau"
  define IZ where "IZ = map2 (\<lambda>z t. trapz (map2 (*) z t) E) Z tau"
  define I1 where "I1 = map2 (\<lambda>x t. trapz (map2 (*) (map2 (*) x t) E) E) X tau"
  define I2 where "I2 = map2 (\<lambda>x t. trapz (map2 (*) (map2 (*) x t) (map (\<lambda>e. e ^ 2) E)) E) X tau"
  define Sigma where "Sigma = map (\<lambda>ix. - 1 * ix / 3 * e2C) IX"
  define S where "S = map2 (\<lambda>q T. q / T) (map2 (\<lambda>iy ix. - 1 * iy / ix) IY IX) Temp"
  define PF where "PF = map2 (\<lambda>sg s. sg * s ^ 2) Sigma S"
  define ke where "ke = map2 (\<lambda>q T. q / T / 3 * e2C)
                   (map2 (\<lambda>iz (iy, ix). - 1 * (iz - iy ^ 2 / ix)) IZ (zip IY IX)) Temp"
  define delta_1 where "delta_1 = map2 (\<lambda>i1 ix. i1 / ix) I1 IX"
  define delta_2 where "delta_2 = map2 (\<lambda>i2 ix. i2 / ix) I2 IX"
  define Lorenz where "Lorenz = map2 (\<lambda>q T. q / T / T) (map2 (\<lambda>d2 d1. d2 - d1 ^ 2) delta_2 delta_1) Temp"
  define c where "c = \<lparr>c_Sigma = Sigma, c_S = S, c_PF = PF, c_ke = ke,
                c_delta_1 = delta_1, c_delta_2 = delta_2, c_Lorenz = Lorenz\<rparr>"
  note defs = X_def Y_def Z_def IX_def IY_def IZ_def I1_def I2_def Sigma_def S_def PF_def ke_def
    delta_1_def delta_2_def Lorenz_def
  have guard: "\<not> (length DoS \<noteq> length E \<or> length vg \<noteq> length E
         \<or> (\<exists>row \<in> set dfdE. length row \<noteq> length E)
         \<or> (\<exists>row \<in> set tau. length row \<noteq> length E)
         \<or> length Ef \<noteq> length Temp \<or> length dfdE \<noteq> length Temp \<or> length tau \<noteq> length Temp)"
    using assms(1-7) by simp
  have res: "electricalProperties E DoS vg Ef dfdE Temp tau = Inr c"
    unfolding electricalProperties_def c_def defs Let_def if_not_P [OF guard] ..
  let ?nT = "length Temp"
  have lX: "length X = ?nT" using assms(6) by (simp add: X_def)
  have lY: "length Y = ?nT" using assms(5) lX by (simp add: Y_def)
  have lZ: "length Z = ?nT" using assms(5) lY by (simp add: Z_def)
  have lIX: "length IX = ?nT" using assms(7) lX by (simp add: IX_def)
  have lIY: "length IY = ?nT" using assms(7) lY by (simp add: IY_def)
  have lIZ: "length IZ = ?nT" using assms(7) lZ by (simp add: IZ_def)
  have lI1: "length I1 = ?nT" using assms(7) lX by (simp add: I1_def)
  have lI2: "length I2 = ?nT" using assms(7) lX by (simp add: I2_def)
  have lSigma: "length Sigma = ?nT" using lIX by (simp add: Sigma_def)
  have lS: "length S = ?nT" using lIX lIY by (simp add: S_def)
  have lPF: "length PF = ?nT" using lSigma lS by (simp add: PF_def)
  have lke: "length ke = ?nT" using lIX lIY lIZ by (simp add: ke_def)
  have ld1: "length delta_1 = ?nT" using lIX lI1 by (simp add: delta_1_def)
  have ld2: "length delta_2 = ?nT" using lIX lI2 by (simp add: delta_2_def)
  have lL: "length Lorenz = ?nT" using ld1 ld2 by (simp add: Lorenz_def)
  have cells: "c_Sigma c ! t = spec_Sigma E DoS vg (dfdE ! t) (tau ! t)
               \<and> c_S c ! t = spec_S E (Ef ! t) DoS vg (dfdE ! t) (tau ! t) (Temp ! t)
               \<and> c_PF c ! t = spec_PF E (Ef ! t) DoS vg (dfdE ! t) (tau ! t) (Temp ! t)
               \<and> c_ke c ! t = spec_ke E (Ef ! t) DoS vg (dfdE ! t) (tau ! t) (Temp ! t)
               \<and> c_delta_1 c ! t = spec_delta1 E DoS vg (dfdE ! t) (tau ! t)
               \<and> c_delta_2 c ! t = spec_delta2 E DoS vg (dfdE ! t) (tau ! t)
               \<and> c_Lorenz c ! t = spec_Lorenz E DoS vg (dfdE ! t) (tau ! t) (Temp ! t)"
    if t: "t < ?nT" for t
  proof -
    let ?df = "dfdE ! t" and ?ta = "tau ! t" and ?ef = "Ef ! t" and ?T = "Temp ! t"
    have ldf: "length ?df = length E" using assms(3,6) t by simp
    have lta: "length ?ta = length E" using assms(4,7) t by simp
    have Tnz: "?T \<noteq> 0" using assms(8) t by (metis nth_mem)
    have IXnz: "spec_int_X E DoS vg ?df ?ta \<noteq> 0" using assms(9) t by blast
    have Xt: "X ! t = X_row DoS vg ?df" using t assms(6) by (simp add: X_def X_row_def)
    have Yt: "Y ! t = Y_row E ?ef (X_row DoS vg ?df)"
      using t assms(5) lX Xt by (simp add: Y_def Y_row_def)
    have Zt: "Z ! t = Y_row E ?ef (Y_row E ?ef (X_row DoS vg ?df))"
      using t assms(5) lY Yt by (simp add: Z_def Y_row_def)
    have IXt: "IX ! t = spec_int_X E DoS vg ?df ?ta"
      using t assms(7) lX Xt int_X_row [OF assms(1,2) ldf lta] by (simp add: IX_def)
    have IYt: "IY ! t = spec_int_Y E ?ef DoS vg ?df ?ta"
      using t assms(7) lY Yt int_Y_row [OF assms(1,2) ldf lta] by (simp add: IY_def)
    have IZt: "IZ ! t = spec_int_Z E ?ef DoS vg ?df ?ta"
      using t assms(7) lZ Zt int_Z_row [OF assms(1,2) ldf lta] by (simp add: IZ_def)
    have I1t: "I1 ! t = spec_trapezoid (\<lambda>i. spec_X DoS vg ?df i * ?ta ! i * E ! i) E"
      using t assms(7) lX Xt moment1_row [OF assms(1,2) ldf lta] by (simp add: I1_def)
    have I2t: "I2 ! t = spec_trapezoid (\<lambda>i. spec_X DoS vg ?df i * ?ta ! i * (E ! i)\<^sup>2) E"
      using t assms(7) lX Xt moment2_row [OF assms(1,2) ldf lta] by (simp add: I2_def)
    have Sigma_t: "Sigma ! t = spec_Sigma E DoS vg ?df ?ta"
      using t lIX IXt by (simp add: Sigma_def spec_Sigma_def)
    have S_t: "S ! t = spec_S E ?ef DoS vg ?df ?ta ?T"
      using t lIX lIY IXt IYt by (simp add: S_def spec_S_def)
    have PF_t: "PF ! t = spec_PF E ?ef DoS vg ?df ?ta ?T"
      using t lSigma lS Sigma_t S_t by (simp add: PF_def spec_PF_def)
    have ke_t: "ke ! t = spec_ke E ?ef DoS vg ?df ?ta ?T"
      using t lIX lIY lIZ IXt IYt IZt Tnz by (simp add: ke_def spec_ke_def field_simps)
    have d1_t: "delta_1 ! t = spec_delta1 E DoS vg ?df ?ta"
      using t lIX lI1 IXt I1t by (simp add: delta_1_def spec_delta1_def)
    have d2_t: "delta_2 ! t = spec_delta2 E DoS vg ?df ?ta"
      using t lIX lI2 IXt I2t by (simp add: delta_2_def spec_delta2_def)
    have L_t: "Lorenz ! t = spec_Lorenz E DoS vg ?df ?ta ?T"
      using t ld1 ld2 d1_t d2_t by (simp add: Lorenz_def spec_Lorenz_def power2_eq_square)
    show ?thesis
      using Sigma_t S_t PF_t ke_t d1_t d2_t L_t by (simp add: c_def)
  qed
  show ?thesis
    apply (rule exI [of _ c])
    apply (intro conjI)
            apply (rule res)
           apply (simp add: c_def lSigma)
          apply (simp add: c_def lS)
         apply (simp add: c_def lPF)
        apply (simp add: c_def lke)
       apply (simp add: c_def ld1)
      apply (simp add: c_def ld2)
     apply (simp add: c_def lL)
    apply (intro allI impI, erule cells)
    done
qed

theorem electricalProperties_formulas_witness:
  "length [1::real, 1] = length [0::real, 1] \<and> length [- 1::real, - 1] = length [0::real, 1]
   \<and> length [0::real] = length [1::real] \<and> length [[- 1::real, - 1]] = length [1::real]
   \<and> (0::real) \<notin> set [1]
   \<and> spec_int_X [0, 1] [1, 1] [1, 1] [- 1, - 1] [1, 1] = - 1
   \<and> electricalProperties [0, 1] [1, 1] [1, 1] [0] [[- 1, - 1]] [1] [[1, 1]]
       = Inr \<lparr>c_Sigma = [e2C / 3], c_S = [- 1 / 2], c_PF = [e2C / 12], c_ke = [e2C / 12],
              c_delta_1 = [1 / 2], c_delta_2 = [1 / 2], c_Lorenz = [1 / 4]\<rparr>
   \<and> spec_Sigma [0, 1] [1, 1] [1, 1] [- 1, - 1] [1, 1] = e2C / 3
   \<and> spec_S [0, 1] 0 [1, 1] [1, 1] [- 1, - 1] [1, 1] 1 = - 1 / 2
   \<and> spec_Lorenz [0, 1] [1, 1] [1, 1] [- 1, - 1] [1, 1] 1 = 1 / 4"
proof -
  have ix: "spec_int_X [0, 1] [1, 1] [1, 1] [- 1, - 1] [1, 1] = - 1"
    by (simp add: spec_int_X_def spec_trapezoid_def spec_X_def)
  have h: "length [1::real, 1] = length [0::real, 1]" "length [1::real, 1] = length [0::real, 1]"
    "\<forall>row \<in> set [[- 1::real, - 1]]. length row = length [0::real, 1]"
    "\<forall>row \<in> set [[1::real, 1]]. length row = length [0::real, 1]"
    "length [0::real] = length [1::real]" "length [[- 1::real, - 1]] = length [1::real]"
    "length [[1::real, 1]] = length [1::real]" "(0::real) \<notin> set [1]"
    "\<forall>t < length [1::real]. spec_int_X [0, 1] [1, 1] [1, 1] ([[- 1, - 1]] ! t) ([[1, 1]] ! t) \<noteq> 0"
    using ix by simp_all
  have ev: "electricalProperties [0, 1] [1, 1] [1, 1] [0] [[- 1, - 1]] [1] [[1, 1]]
       = Inr \<lparr>c_Sigma = [e2C / 3], c_S = [- 1 / 2], c_PF = [e2C / 12], c_ke = [e2C / 12],
              c_delta_1 = [1 / 2], c_delta_2 = [1 / 2], c_Lorenz = [1 / 4]\<rparr>"
    by (simp add: electricalProperties_def Let_def trapz_def np_diff_def power2_eq_square)
  from electricalProperties_formulas [OF h] obtain c where
    c: "electricalProperties [0, 1] [1, 1] [1, 1] [0] [[- 1, - 1]] [1] [[1, 1]] = Inr c"
    and cells: "\<forall>t < length [1::real].
                 c_Sigma c ! t = spec_Sigma [0, 1] [1, 1] [1, 1] ([[- 1, - 1]] ! t) ([[1, 1]] ! t)
               \<and> c_S c ! t = spec_S [0, 1] ([0] ! t) [1, 1] [1, 1] ([[- 1, - 1]] ! t) ([[1, 1]] ! t) ([1] ! t)
               \<and> c_PF c ! t = spec_PF [0, 1] ([0] ! t) [1, 1] [1, 1] ([[- 1, - 1]] ! t) ([[1, 1]] ! t) ([1] ! t)
               \<and> c_ke c ! t = spec_ke [0, 1] ([0] ! t) [1, 1] [1, 1] ([[- 1, - 1]] ! t) ([[1, 1]] ! t) ([1] ! t)
               \<and> c_delta_1 c ! t = spec_delta1 [0, 1] [1, 1] [1, 1] ([[- 1, - 1]] ! t) ([[1, 1]] ! t)
               \<and> c_delta_2 c ! t = spec_delta2 [0, 1] [1, 1] [1, 1] ([[- 1, - 1]] ! t) ([[1, 1]] ! t)
               \<and> c_Lorenz c ! t = spec_Lorenz [0, 1] [1, 1] [1, 1] ([[- 1, - 1]] ! t) ([[1, 1]] ! t) ([1] ! t)"
    by blast
  have cv: "c = \<lparr>c_Sigma = [e2C / 3], c_S = [- 1 / 2], c_PF = [e2C / 12], c_ke = [e2C / 12],
              c_delta_1 = [1 / 2], c_delta_2 = [1 / 2], c_Lorenz = [1 / 4]\<rparr>"
    using c ev by simp
  from cells have "c_Sigma c ! 0 = spec_Sigma [0, 1] [1, 1] [1, 1] [- 1, - 1] [1, 1]"
    and "c_S c ! 0 = spec_S [0, 1] 0 [1, 1] [1, 1] [- 1, - 1] [1, 1] 1"
    and "c_Lorenz c ! 0 = spec_Lorenz [0, 1] [1, 1] [1, 1] [- 1, - 1] [1, 1] 1"
    by simp_all
  then have sp: "spec_Sigma [0, 1] [1, 1] [1, 1] [- 1, - 1] [1, 1] = e2C / 3"
    "spec_S [0, 1] 0 [1, 1] [1, 1] [- 1, - 1] [1, 1] 1 = - 1 / 2"
    "spec_Lorenz [0, 1] [1, 1] [1, 1] [- 1, - 1] [1, 1] 1 = 1 / 4"
    by (simp_all add: cv)
  show ?thesis using ix ev sp by simp
qed

section \<open>Acoustic-phonon lifetime: properties\<close>

lemma nonparabolic_term_spec:
  "(1 - ((a * E) / (1 + 2 * a * E) * (1 - Dv / DA))) ^ 2
      - 8 / 3 * (a * E) * (1 + a * E) / (1 + 2 * a * E) ^ 2 * (Dv / DA)
   = spec_correction a E Dv DA"
  by (simp add: spec_correction_def)

text \<open>
  Claim C8.  \<open>tau_p\<close> returns the pair (parabolic lifetime, nonparabolic lifetime), one
  row per temperature index, and at every grid energy the nonparabolic lifetime is the
  parabolic one divided by the correction factor of the specification.  (Exact
  arithmetic, all divisors non-zero.)
\<close>

theorem tau_p_nonparabolic_correction:
  assumes "DA \<noteq> 0" and "length alpha = length T" and "length D = length eRange"
    and "0 \<notin> set T" and "0 \<notin> set D"
    and "\<forall>a \<in> set alpha. \<forall>E \<in> set eRange. 1 + 2 * a * E \<noteq> 0 \<and> spec_correction a E Dv DA \<noteq> 0"
  shows "\<exists>tau taup. tau_p eRange alpha Dv DA T vs D rho = Inr (tau, taup)
           \<and> length tau = length T \<and> length taup = length T
           \<and> (\<forall>t < length T. length (tau ! t) = length eRange \<and> length (taup ! t) = length eRange
                 \<and> (\<forall>e < length eRange.
                       taup ! t ! e = tau ! t ! e / spec_correction (alpha ! t) (eRange ! e) Dv DA))"
proof -
  define tau where
    "tau = map (\<lambda>t. map (\<lambda>d. rho * vs ^ 2 * hBar / pi / kB / t / DA / DA * 10 ^ 9 / e2C / d) D) T"
  define npt where
    "npt = map (\<lambda>a. map (\<lambda>E. (1 - ((a * E) / (1 + 2 * a * E) * (1 - Dv / DA))) ^ 2
                                 - 8 / 3 * (a * E) * (1 + a * E) / (1 + 2 * a * E) ^ 2 * (Dv / DA))
                             eRange) alpha"
  define taup where "taup = map2 (map2 (\<lambda>x y. x / y)) tau npt"
  have g1: "\<not> DA = 0" using assms(1) .
  have g2: "\<not> (length alpha \<noteq> length T \<or> length D \<noteq> length eRange)" using assms(2,3) by simp
  have res: "tau_p eRange alpha Dv DA T vs D rho = Inr (tau, taup)"
    unfolding tau_p_def Let_def tau_def npt_def taup_def if_not_P [OF g1] if_not_P [OF g2] ..
  have npt_spec: "npt = map (\<lambda>a. map (\<lambda>E. spec_correction a E Dv DA) eRange) alpha"
    unfolding npt_def nonparabolic_term_spec ..
  have lt: "length tau = length T" by (simp add: tau_def)
  have ln: "length npt = length T" using assms(2) by (simp add: npt_spec)
  have lp: "length taup = length T" using lt ln by (simp add: taup_def)
  have rows: "length (tau ! t) = length eRange \<and> length (taup ! t) = length eRange
                 \<and> (\<forall>e < length eRange.
                       taup ! t ! e = tau ! t ! e / spec_correction (alpha ! t) (eRange ! e) Dv DA)"
    if t: "t < length T" for t
  proof -
    have a: "length (tau ! t) = length eRange" using t assms(3) by (simp add: tau_def)
    have b: "npt ! t = map (\<lambda>E. spec_correction (alpha ! t) E Dv DA) eRange"
      using t assms(2) by (simp add: npt_spec)
    have c: "taup ! t = map2 (\<lambda>x y. x / y) (tau ! t) (npt ! t)"
      using t lt ln by (simp add: taup_def)
    have d: "length (taup ! t) = length eRange" using a b c by simp
    have e: "taup ! t ! e = tau ! t ! e / spec_correction (alpha ! t) (eRange ! e) Dv DA"
      if "e < length eRange" for e
      using that a b c by simp
    show ?thesis using a d e by blast
  qed
  show ?thesis
    apply (rule exI [of _ tau], rule exI [of _ taup])
    apply (intro conjI)
       apply (rule res)
      apply (rule lt)
     apply (rule lp)
    apply (intro allI impI, erule rows)
    done
qed

theorem tau_p_nonparabolic_correction_witness:
  "(1::real) \<noteq> 0 \<and> length [1::real] = length [1::real] \<and> length [1::real] = length [1::real]
   \<and> (0::real) \<notin> set [1] \<and> 1 + 2 * 1 * (1::real) \<noteq> 0 \<and> spec_correction 1 1 0 1 = 4 / 9
   \<and> tau_p [1] [1] 0 1 [1] 1 [1] 1
       = Inr ([[hBar / pi / kB * 10 ^ 9 / e2C]], [[hBar / pi / kB * 10 ^ 9 / e2C / (4 / 9)]])"
proof -
  have sc: "spec_correction 1 1 0 1 = 4 / 9"
    by (simp add: spec_correction_def power2_eq_square)
  have h: "(1::real) \<noteq> 0" "length [1::real] = length [1::real]" "length [1::real] = length [1::real]"
    "(0::real) \<notin> set [1]" "(0::real) \<notin> set [1]"
    "\<forall>a \<in> set [1::real]. \<forall>E \<in> set [1::real]. 1 + 2 * a * E \<noteq> 0 \<and> spec_correction a E 0 1 \<noteq> 0"
    using sc by simp_all
  from tau_p_nonparabolic_correction [OF h, of 1 1] obtain tau taup where
    res: "tau_p [1] [1] 0 1 [1] 1 [1] 1 = Inr (tau, taup)"
    and rel: "\<forall>t < length [1::real]. length (tau ! t) = length [1::real] \<and> length (taup ! t) = length [1::real]
                 \<and> (\<forall>e < length [1::real].
                       taup ! t ! e = tau ! t ! e / spec_correction ([1] ! t) ([1] ! e) 0 1)"
    by blast
  have tau: "tau = [[hBar / pi / kB * 10 ^ 9 / e2C]]"
    using res by (simp add: tau_p_def Let_def)
  have l1: "length taup = 1" using res by (auto simp: tau_p_def Let_def)
  from rel have l2: "length (taup ! 0) = 1" and v: "taup ! 0 ! 0 = tau ! 0 ! 0 / (4 / 9)"
    using sc by simp_all
  obtain r where r: "taup = [r]" using l1 by (cases taup) auto
  obtain x where x: "r = [x]" using l2 r by (cases r) auto
  have "taup = [[hBar / pi / kB * 10 ^ 9 / e2C / (4 / 9)]]" using r x v tau by simp
  with res tau sc show ?thesis by simp
qed

section \<open>Matthiessen's rule: properties\<close>

subsection \<open>Addition of extended values\<close>

lemma fadd_commute: "fadd x y = fadd y x"
  by (cases x; cases y) simp_all

lemma fadd_assoc: "fadd (fadd x y) z = fadd x (fadd y z)"
  by (cases x; cases y; cases z) simp_all


lemma fadd_zero [simp]: "fadd (Fin 0) x = x" "fadd x (Fin 0) = x"
  by (cases x; simp)+

subsection \<open>The array sum, column by column\<close>







subsection \<open>Laws at one position\<close>














subsection \<open>Laws on arrays\<close>








section \<open>Ionized-impurity lifetimes: properties\<close>

text \<open>
  The screened and the unscreened routine end with \<open>tau[np.isnan(tau)] = 0\<close>: whatever
  the arguments, no \<open>nan\<close> is returned.  At the band edge \<open>E = 0\<close>, where the closed
  form is \<open>inf * 0\<close>, both return zero.
\<close>

lemma tau_Screened_Coulomb_no_nan:
  assumes "tau_Screened_Coulomb self eRange m_c LD N = Inr tau"
  shows "\<forall>row \<in> set tau. \<forall>x \<in> set row. \<not> isnan x"
  using assms
  by (auto simp: tau_Screened_Coulomb_def Let_def split: if_splits)

lemma tau_Unscreened_Coulomb_no_nan:
  assumes "tau_Unscreened_Coulomb self eRange m_c N = Inr tau"
  shows "\<forall>row \<in> set tau. \<forall>x \<in> set row. \<not> isnan x"
  using assms
  by (auto simp: tau_Unscreened_Coulomb_def Let_def split: if_splits)

lemma hBar_pos: "0 < hBar" by (simp add: hBar_def)

lemma e2C_pos: "0 < e2C" by (simp add: e2C_def)

lemma screening_constant_pos: "0 < 4 * pi * dielectric Si * e0"
  by (simp add: Si_def e0_def)

lemma coulomb_prefactor_pos:
  "0 < 16 * pi * sqrt 2 * (4 * pi * dielectric Si * e0)\<^sup>2"
proof -
  have "0 < (4 * pi * dielectric Si * e0)\<^sup>2"
    using screening_constant_pos by (rule zero_less_power)
  moreover have "0 < 16 * pi * sqrt 2" by simp
  ultimately show ?thesis by (rule mult_pos_pos [rotated])
qed

lemma coulomb_tau_band_edge: "coulomb_tau Si (Fin 1) (Fin 1) (Fin 0) (Fin 0) = NaN"
proof -
  have "fdiv (Fin (16 * pi * sqrt 2 * (4 * pi * dielectric Si * e0)\<^sup>2)) (Fin 0) = PInf"
    using coulomb_prefactor_pos by (simp add: inf_of_sign_def)
  then show ?thesis
    by (simp add: coulomb_tau_def inf_of_sign_def)
qed

lemma tau_Screened_Coulomb_band_edge:
  "tau_Screened_Coulomb Si [Fin 0] [Fin 1] [Fin 1] [Fin 1] = Inr [[Fin 0]]"
proof -
  have "hBar \<noteq> 0" "e2C \<noteq> 0" using hBar_pos e2C_pos by simp_all
  then show ?thesis
    by (simp add: tau_Screened_Coulomb_def fsq_def fsub_def Let_def coulomb_tau_band_edge)
qed

lemma tau_Unscreened_Coulomb_band_edge:
  "tau_Unscreened_Coulomb Si [Fin 0] [Fin 1] [Fin 1] = Inr [[Fin 0]]"
proof -
  have "e2C \<noteq> 0" using e2C_pos by simp
  then show ?thesis
    by (simp add: tau_Unscreened_Coulomb_def fsq_def Let_def coulomb_tau_band_edge)
qed

text \<open>
  Claim C7 asks the same of the strongly screened routine, which has no such step: for
  a vanishing concentration \<open>N = 0\<close> with its infinite screening length \<open>LD = inf\<close>
  (and \<open>D = 1\<close>) the closed form is \<open>inf / inf\<close>, and the \<open>nan\<close> is returned.
\<close>

theorem tau_Strongly_Screened_Coulomb_returns_nan:
  "tau_Strongly_Screened_Coulomb Si [Fin 1] [PInf] [Fin 0] = Inr [[NaN]]"
proof -
  have "\<not> 4 * pi * dielectric Si * e0 < 0" using screening_constant_pos by simp
  moreover have "0 < hBar" by (simp add: hBar_def)
  ultimately show ?thesis
    by (simp add: tau_Strongly_Screened_Coulomb_def fsq_def inf_of_sign_def)
qed

section \<open>Filtering sweep: properties\<close>

lemma sweep_body_raises: "sweep_body U t = Inl (NameError ''Erange'')"
  by (simp add: sweep_body_def load_name_def module_names_def filteringEffect_locals_def)

lemma inner_loop_raises:
  assumes "taus \<noteq> []"
  shows "inner_loop U taus st = Inl (NameError ''Erange'')"
  using assms by (cases taus; cases st) (simp_all add: sweep_body_raises)

lemma outer_loop_raises:
  assumes "Us \<noteq> []" and "arange tauIncrement tau0 tauIncrement = Inr taus" and "taus \<noteq> []"
  shows "outer_loop tau0 tauIncrement Us st = Inl (NameError ''Erange'')"
proof -
  obtain U rest where Us: "Us = U # rest" using assms(1) by (cases Us) auto
  obtain n m sMatrix where st: "st = (n, m, sMatrix)" by (cases st) auto
  show ?thesis by (simp add: Us st assms(2) inner_loop_raises [OF assms(3)])
qed

lemma filteringEffect_raises:
  assumes "arange (1 / 10) U0 uIncrement = Inr Us" and "Us \<noteq> []"
    and "arange tauIncrement tau0 tauIncrement = Inr taus" and "taus \<noteq> []"
  shows "filteringEffect U0 tau0 uIncrement tauIncrement = Inl (NameError ''Erange'')"
  by (simp add: filteringEffect_def assms(1) outer_loop_raises [OF assms(2,3,4)])

lemma filteringEffect_empty_barrier_sweep:
  assumes "arange (1 / 10) U0 uIncrement = Inr []"
  shows "filteringEffect U0 tau0 uIncrement tauIncrement = Inr []"
  by (simp add: filteringEffect_def assms reshape_def)

lemma arange_barriers: "arange (1 / 10) (2 / 10) (5 / 100) = Inr [1 / 10, 3 / 20]"
  by (simp add: arange_def eval_nat_numeral)

lemma arange_lifetimes: "arange (1 / 10 ^ 15) (2 / 10 ^ 15) (1 / 10 ^ 15) = Inr [1 / 10 ^ 15]"
  by (simp add: arange_def)

text \<open>
  Claim C6.  Whenever the barrier range \<open>np.arange(0.1, U0, uIncrement)\<close> and the
  lifetime range \<open>np.arange(tauIncrement, tau0, tauIncrement)\<close> are both non-empty,
  \<open>filteringEffect\<close> raises \<open>NameError\<close> for the name \<open>Erange\<close> and returns no matrix.
\<close>

theorem filteringEffect_NameError:
  assumes "arange (1 / 10) U0 uIncrement = Inr Us" and "Us \<noteq> []"
    and "arange tauIncrement tau0 tauIncrement = Inr taus" and "taus \<noteq> []"
  shows "filteringEffect U0 tau0 uIncrement tauIncrement = Inl (NameError ''Erange'')"
  using assms by (rule filteringEffect_raises)

theorem filteringEffect_NameError_witness:
  "arange (1 / 10) (2 / 10) (5 / 100) = Inr [1 / 10, 3 / 20] \<and> [1 / 10, 3 / 20] \<noteq> ([]::real list)
   \<and> arange (1 / 10 ^ 15) (2 / 10 ^ 15) (1 / 10 ^ 15) = Inr [1 / 10 ^ 15]
   \<and> [1 / 10 ^ 15] \<noteq> ([]::real list)
   \<and> filteringEffect (2 / 10) (2 / 10 ^ 15) (5 / 100) (1 / 10 ^ 15) = Inl (NameError ''Erange'')"
proof -
  have a: "[1 / 10, 3 / 20] \<noteq> ([]::real list)" and b: "[1 / 10 ^ 15] \<noteq> ([]::real list)" by simp_all
  from filteringEffect_NameError [OF arange_barriers a arange_lifetimes b] arange_barriers arange_lifetimes
  show ?thesis by simp
qed

text \<open>
  Claim C5 asks for a full rectangular matrix on every well-posed sweep.  On the sweep
  \<open>U0 = 0.5\<close>, \<open>tau0 = 3e-15\<close> with the default increments, where both ranges are
  non-empty, the call raises instead.
\<close>

theorem filteringEffect_default_sweep_raises:
  "filteringEffect (5 / 10) (3 / 10 ^ 15) (5 / 100) (1 / 10 ^ 15) = Inl (NameError ''Erange'')"
proof -
  have 1: "arange (1 / 10) (5 / 10) (5 / 100)
            = Inr (map (\<lambda>i. 1 / 10 + real i * (5 / 100)) [0..<8])"
    by (simp add: arange_def)
  have 2: "arange (1 / 10 ^ 15) (3 / 10 ^ 15) (1 / 10 ^ 15)
            = Inr (map (\<lambda>i. 1 / 10 ^ 15 + real i * (1 / 10 ^ 15)) [0..<2])"
    by (simp add: arange_def)
  show ?thesis
    by (rule filteringEffect_raises [OF 1 _ 2]) simp_all
qed

end
